theory Spec2Isabelle
  imports Complex_Main
begin

section \<open>Data model\<close>

text \<open>
  A bar is one OHLC sample. Prices are Python floats in the source; they are modelled as
  real numbers, so rounding and NaN are outside the model (the bar data is NaN-free).
  A bar series (the rows of a pandas DataFrame) is a list of bars, oldest first.
\<close>

record bar =
  bar_open :: real
  bar_high :: real
  bar_low :: real
  bar_close :: real

datatype error = IndexError | KeyError

definition bindE :: "error + 'a \<Rightarrow> ('a \<Rightarrow> error + 'b) \<Rightarrow> error + 'b" where
  "bindE m f = (case m of Inl e \<Rightarrow> Inl e | Inr x \<Rightarrow> f x)"

text \<open>\<^verbatim>\<open>df.iloc[-k]\<close>: the k-th row from the end, IndexError when there is none.\<close>

definition iloc_neg :: "'a list \<Rightarrow> nat \<Rightarrow> error + 'a" where
  "iloc_neg df k =
     (if 1 \<le> k \<and> k \<le> length df then Inr (df ! (length df - k)) else Inl IndexError)"

text \<open>\<^verbatim>\<open>df.tail(n)\<close> for \<open>n \<ge> 0\<close>: the last n rows (all of them when there are fewer).\<close>

definition tail :: "'a list \<Rightarrow> nat \<Rightarrow> 'a list" where
  "tail df n = drop (length df - n) df"

section \<open>Candlestick classifier (candle\_patterns.py)\<close>

definition is_bullish_engulfing :: "bar list \<Rightarrow> error + bool" where
  "is_bullish_engulfing df =
     (if length df < 2 then Inr False
      else bindE (iloc_neg df 2) (\<lambda>prev. bindE (iloc_neg df 1) (\<lambda>curr.
        Inr (bar_close prev < bar_open prev \<and>
             bar_close curr > bar_open curr \<and>
             bar_open curr < bar_close prev \<and>
             bar_close curr > bar_open prev))))"

definition is_bearish_engulfing :: "bar list \<Rightarrow> error + bool" where
  "is_bearish_engulfing df =
     (if length df < 2 then Inr False
      else bindE (iloc_neg df 2) (\<lambda>prev. bindE (iloc_neg df 1) (\<lambda>curr.
        Inr (bar_close prev > bar_open prev \<and>
             bar_close curr < bar_open curr \<and>
             bar_open curr > bar_close prev \<and>
             bar_close curr < bar_open prev))))"

definition is_hammer :: "bar list \<Rightarrow> error + bool" where
  "is_hammer df =
     (if length df < 1 then Inr False
      else bindE (iloc_neg df 1) (\<lambda>c.
        let body = \<bar>bar_close c - bar_open c\<bar>;
            lower_wick = min (bar_close c) (bar_open c) - bar_low c
        in Inr (lower_wick > 2 * body)))"

definition is_shooting_star :: "bar list \<Rightarrow> error + bool" where
  "is_shooting_star df =
     (if length df < 1 then Inr False
      else bindE (iloc_neg df 1) (\<lambda>c.
        let body = \<bar>bar_close c - bar_open c\<bar>;
            upper_wick = bar_high c - max (bar_close c) (bar_open c)
        in Inr (upper_wick > 2 * body)))"

definition is_doji :: "bar list \<Rightarrow> error + bool" where
  "is_doji df =
     (if length df < 1 then Inr False
      else bindE (iloc_neg df 1) (\<lambda>c.
        Inr (\<bar>bar_close c - bar_open c\<bar> < 0.1 * (bar_high c - bar_low c))))"

definition is_morning_star :: "bar list \<Rightarrow> error + bool" where
  "is_morning_star df =
     (if length df < 3 then Inr False
      else bindE (iloc_neg df 3) (\<lambda>a. bindE (iloc_neg df 2) (\<lambda>b. bindE (iloc_neg df 1) (\<lambda>c.
        Inr (bar_close a < bar_open a \<and>
             \<bar>bar_close b - bar_open b\<bar> < 0.2 * (bar_high b - bar_low b) \<and>
             bar_close c > bar_open c \<and>
             bar_close c > (bar_open a + bar_close a) / 2)))))"

definition is_evening_star :: "bar list \<Rightarrow> error + bool" where
  "is_evening_star df =
     (if length df < 3 then Inr False
      else bindE (iloc_neg df 3) (\<lambda>a. bindE (iloc_neg df 2) (\<lambda>b. bindE (iloc_neg df 1) (\<lambda>c.
        Inr (bar_close a > bar_open a \<and>
             \<bar>bar_close b - bar_open b\<bar> < 0.2 * (bar_high b - bar_low b) \<and>
             bar_close c < bar_open c \<and>
             bar_close c < (bar_open a + bar_close a) / 2)))))"

definition is_gravestone_doji :: "bar list \<Rightarrow> error + bool" where
  "is_gravestone_doji df =
     (if length df < 1 then Inr False
      else bindE (iloc_neg df 1) (\<lambda>c.
        let body = \<bar>bar_open c - bar_close c\<bar>
        in Inr (body < 0.1 * (bar_high c - bar_low c) \<and>
                (bar_high c - max (bar_open c) (bar_close c)) > 2 * body)))"

definition is_dragonfly_doji :: "bar list \<Rightarrow> error + bool" where
  "is_dragonfly_doji df =
     (if length df < 1 then Inr False
      else bindE (iloc_neg df 1) (\<lambda>c.
        let body = \<bar>bar_open c - bar_close c\<bar>
        in Inr (body < 0.1 * (bar_high c - bar_low c) \<and>
                (min (bar_open c) (bar_close c) - bar_low c) > 2 * body)))"

definition is_tweezer_top :: "bar list \<Rightarrow> error + bool" where
  "is_tweezer_top df =
     (if length df < 2 then Inr False
      else bindE (iloc_neg df 2) (\<lambda>a. bindE (iloc_neg df 1) (\<lambda>b.
        Inr (\<bar>bar_high a - bar_high b\<bar> < 1 / 100000 \<and>
             bar_close a > bar_open a \<and>
             bar_close b < bar_open b))))"

definition is_tweezer_bottom :: "bar list \<Rightarrow> error + bool" where
  "is_tweezer_bottom df =
     (if length df < 2 then Inr False
      else bindE (iloc_neg df 2) (\<lambda>a. bindE (iloc_neg df 1) (\<lambda>b.
        Inr (\<bar>bar_low a - bar_low b\<bar> < 1 / 100000 \<and>
             bar_close a < bar_open a \<and>
             bar_close b > bar_open b))))"

definition is_bullish_harami :: "bar list \<Rightarrow> error + bool" where
  "is_bullish_harami df =
     (if length df < 2 then Inr False
      else bindE (iloc_neg df 2) (\<lambda>a. bindE (iloc_neg df 1) (\<lambda>b.
        Inr (bar_close a < bar_open a \<and>
             bar_close b > bar_open b \<and>
             bar_open b > bar_close a \<and>
             bar_close b < bar_open a))))"

definition is_bearish_harami :: "bar list \<Rightarrow> error + bool" where
  "is_bearish_harami df =
     (if length df < 2 then Inr False
      else bindE (iloc_neg df 2) (\<lambda>a. bindE (iloc_neg df 1) (\<lambda>b.
        Inr (bar_close a > bar_open a \<and>
             bar_close b < bar_open b \<and>
             bar_open b < bar_close a \<and>
             bar_close b > bar_open a))))"

definition BUY_PATTERNS :: "(bar list \<Rightarrow> error + bool) list" where
  "BUY_PATTERNS = [is_bullish_engulfing, is_hammer, is_dragonfly_doji, is_tweezer_bottom,
     is_bullish_harami, is_morning_star]"

definition SELL_PATTERNS :: "(bar list \<Rightarrow> error + bool) list" where
  "SELL_PATTERNS = [is_bearish_engulfing, is_shooting_star, is_gravestone_doji, is_tweezer_top,
     is_bearish_harami, is_evening_star]"

lemmas candle_defs =
  is_bullish_engulfing_def is_bearish_engulfing_def is_hammer_def is_shooting_star_def
  is_doji_def is_morning_star_def is_evening_star_def is_gravestone_doji_def
  is_dragonfly_doji_def is_tweezer_top_def is_tweezer_bottom_def is_bullish_harami_def
  is_bearish_harami_def


section \<open>Indicators (indicators.py): the ATR column\<close>

text \<open>
  A DataFrame handed to the zone engine: its OHLC rows and, when it has one, the column
  \<^verbatim>\<open>atr_14\<close>. A cell of an indicator column is \<open>None\<close> where pandas holds NaN (the
  warm-up rows of a rolling mean).
\<close>

record frame =
  rows :: "bar list"
  atr_14 :: "real option list option"

text \<open>
  \<^verbatim>\<open>_atr\<close>: the true range of a bar is the largest of high - low, |high - prev\_close|,
  |low - prev\_close| (the row-wise max skips the NaN of the first row, which has no
  previous close); the ATR is its rolling mean over \<open>period\<close> rows.
\<close>

fun true_range :: "real option \<Rightarrow> bar list \<Rightarrow> real list" where
  "true_range prev_close [] = []"
| "true_range prev_close (b # bs) =
     (case prev_close of
        None \<Rightarrow> bar_high b - bar_low b
      | Some c \<Rightarrow> max (bar_high b - bar_low b) (max \<bar>bar_high b - c\<bar> \<bar>bar_low b - c\<bar>))
     # true_range (Some (bar_close b)) bs"

definition rolling_mean :: "nat \<Rightarrow> real list \<Rightarrow> real option list" where
  "rolling_mean period xs =
     map (\<lambda>i. if i + 1 < period then None
              else Some (sum_list (take period (drop (i + 1 - period) xs)) / real period))
         [0..<length xs]"

definition atr :: "bar list \<Rightarrow> real option list" where
  "atr df = rolling_mean 14 (true_range None df)"

text \<open>\<^verbatim>\<open>series.iat[-1]\<close>.\<close>

definition iat_last :: "'a list \<Rightarrow> error + 'a" where
  "iat_last xs = (if xs = [] then Inl IndexError else Inr (last xs))"

text \<open>A comparison with NaN is false.\<close>

definition nan_less :: "real \<Rightarrow> real option \<Rightarrow> bool" where
  "nan_less x y = (case y of None \<Rightarrow> False | Some v \<Rightarrow> x < v)"

definition nan_greater :: "real \<Rightarrow> real option \<Rightarrow> bool" where
  "nan_greater x y = (case y of None \<Rightarrow> False | Some v \<Rightarrow> x > v)"

section \<open>Supply/demand zone engine (supply\_demand.py)\<close>

type_synonym zone = "real \<times> real"

definition ENABLE_ATR_FILTER :: bool where "ENABLE_ATR_FILTER = False"
definition ENABLE_BREAKOUT_FILTER :: bool where "ENABLE_BREAKOUT_FILTER = False"

text \<open>
  The inner \<^verbatim>\<open>for ... else\<close> of \<^verbatim>\<open>_merge_zones\<close>: the first existing zone that
  overlaps the candidate is replaced by the union of the two and the scan stops
  (\<^verbatim>\<open>break\<close>); when none overlaps, the candidate is appended.
\<close>

fun merge_into :: "zone \<Rightarrow> zone list \<Rightarrow> zone list" where
  "merge_into (low, high) [] = [(low, high)]"
| "merge_into (low, high) ((ex_low, ex_high) # merged) =
     (if \<not> (high < ex_low \<or> low > ex_high)
      then (min low ex_low, max high ex_high) # merged
      else (ex_low, ex_high) # merge_into (low, high) merged)"

text \<open>The outer loop, with \<open>merged\<close> as the accumulator; degenerate candidates are skipped.\<close>

fun merge_loop :: "zone list \<Rightarrow> zone list \<Rightarrow> zone list" where
  "merge_loop merged [] = merged"
| "merge_loop merged ((low, high) # zones) =
     (if low = high then merge_loop merged zones
      else merge_loop (merge_into (low, high) merged) zones)"

text \<open>
  \<^verbatim>\<open>xs[k:]\<close> for a Python int k: a negative k counts from the end, and both ends are
  clamped to the list. \<^verbatim>\<open>merged[-max_zones:]\<close> is \<open>py_slice_from merged (- max_zones)\<close>;
  for \<open>max_zones = 0\<close> that is all of \<open>merged\<close>.
\<close>

definition py_slice_from :: "'a list \<Rightarrow> int \<Rightarrow> 'a list" where
  "py_slice_from xs k =
     (if k < 0 then drop (nat (int (length xs) + k)) xs else drop (nat k) xs)"

definition merge_zones :: "zone list \<Rightarrow> int \<Rightarrow> zone list" where
  "merge_zones zones max_zones = py_slice_from (merge_loop [] zones) (- max_zones)"

text \<open>\<^verbatim>\<open>df.iloc[a:b]\<close> for \<open>a \<ge> 0\<close> and a Python int b.\<close>

definition iloc_slice :: "'a list \<Rightarrow> nat \<Rightarrow> int \<Rightarrow> 'a list" where
  "iloc_slice xs a b =
     (let stop = (if b < 0 then nat (int (length xs) + b) else min (nat b) (length xs))
      in take (stop - a) (drop a xs))"

text \<open>
  One pass of the window loop of \<^verbatim>\<open>find_zones\<close>. An empty window (possible only for
  \<open>window \<le> 0\<close>) raises IndexError at \<^verbatim>\<open>w["close"].iat[0]\<close>.
\<close>

fun zone_scan ::
  "bar list \<Rightarrow> int \<Rightarrow> real \<Rightarrow> real \<Rightarrow> real option \<Rightarrow> nat list \<Rightarrow> zone list \<times> zone list \<Rightarrow>
   error + zone list \<times> zone list" where
  "zone_scan df window range_factor breakout_mult atr_v [] (demand, supply) = Inr (demand, supply)"
| "zone_scan df window range_factor breakout_mult atr_v (start # starts) (demand, supply) =
     (let w = iloc_slice df start (int start + window) in
      if w = [] then Inl IndexError
      else
        let spread = Max (set (map bar_high w)) - Min (set (map bar_low w));
            ok_spread = ((\<not> ENABLE_ATR_FILTER) \<or>
                          nan_less spread (map_option (\<lambda>a. range_factor * a) atr_v));
            fc = bar_close (hd w);
            lc = bar_close (last w);
            move = \<bar>lc - fc\<bar>;
            ok_break = ((\<not> ENABLE_BREAKOUT_FILTER) \<or>
                         nan_greater move (map_option (\<lambda>a. breakout_mult * a) atr_v))
        in
          if ok_spread \<and> ok_break then
            let low = Min (set (map bar_low w)); high = Max (set (map bar_high w)) in
            if low = high then
              zone_scan df window range_factor breakout_mult atr_v starts (demand, supply)
            else if lc > fc then
              zone_scan df window range_factor breakout_mult atr_v starts
                (demand @ [(low, high)], supply)
            else
              zone_scan df window range_factor breakout_mult atr_v starts
                (demand, supply @ [(low, high)])
          else zone_scan df window range_factor breakout_mult atr_v starts (demand, supply))"

text \<open>
  \<^verbatim>\<open>find_zones\<close>. The ATR is read from the frame's own column, or computed when the frame
  has none; \<^verbatim>\<open>range(len(df) - window)\<close> is empty when the difference is not positive.
\<close>

definition find_zones :: "frame \<Rightarrow> int \<Rightarrow> real \<Rightarrow> real \<Rightarrow> int \<Rightarrow> error + zone list \<times> zone list" where
  "find_zones df window range_factor breakout_mult max_zones =
     bindE (iat_last (case atr_14 df of Some col \<Rightarrow> col | None \<Rightarrow> atr (rows df))) (\<lambda>atr_v.
     bindE (zone_scan (rows df) window range_factor breakout_mult atr_v
              [0..<nat (int (length (rows df)) - window)] ([], []))
       (\<lambda>(demand, supply). Inr (merge_zones demand max_zones, merge_zones supply max_zones)))"

definition find_m30_zones :: "frame \<Rightarrow> error + zone list \<times> zone list" where
  "find_m30_zones df = find_zones df 20 1.0 0.1 3"

definition find_h1_zones :: "frame \<Rightarrow> error + zone list \<times> zone list" where
  "find_h1_zones df = find_zones df 20 1.0 0.1 3"

definition find_h2_zones :: "frame \<Rightarrow> error + zone list \<times> zone list" where
  "find_h2_zones df = find_zones df 25 1.0 0.1 3"

definition find_h4_zones :: "frame \<Rightarrow> error + zone list \<times> zone list" where
  "find_h4_zones df = find_zones df 30 1.0 0.1 3"

definition find_d1_zones :: "frame \<Rightarrow> error + zone list \<times> zone list" where
  "find_d1_zones df = find_zones df 10 1.0 0.1 2"

text \<open>Two zones overlap when neither lies wholly on one side of the other.\<close>

definition overlaps :: "zone \<Rightarrow> zone \<Rightarrow> bool" where
  "overlaps a b = (\<not> (snd a < fst b \<or> fst a > snd b))"

section \<open>Support/resistance level finder (support\_resistance.py)\<close>

text \<open>\<^verbatim>\<open>xs[a:b]\<close> for \<open>0 \<le> a\<close> and \<open>0 \<le> b\<close> (clamped to the list).\<close>

definition slice :: "'a list \<Rightarrow> nat \<Rightarrow> nat \<Rightarrow> 'a list" where
  "slice xs a b = take (b - a) (drop a xs)"

text \<open>\<^verbatim>\<open>xs[:k]\<close> for a Python int k.\<close>

definition py_slice_to :: "'a list \<Rightarrow> int \<Rightarrow> 'a list" where
  "py_slice_to xs k =
     (if k < 0 then take (nat (int (length xs) + k)) xs else take (nat k) xs)"

text \<open>
  The scan of \<^verbatim>\<open>find_nearest_levels\<close> over \<^verbatim>\<open>range(window, max_index)\<close>, with the two
  lists as accumulators. \<^verbatim>\<open>highs[i]\<close> looks a row up by its label, so a negative i
  (possible only for a negative window) raises KeyError.
\<close>

fun swing_scan ::
  "bar list \<Rightarrow> int \<Rightarrow> int list \<Rightarrow> real list \<times> real list \<Rightarrow> error + real list \<times> real list" where
  "swing_scan df window [] (supports, resistances) = Inr (supports, resistances)"
| "swing_scan df window (i # is) (supports, resistances) =
     (if i < 0 \<or> i \<ge> int (length df) then Inl KeyError
      else
        let highs = map bar_high df; lows = map bar_low df;
            high = highs ! nat i; low = lows ! nat i;
            resistances' =
              (if list_all (\<lambda>h. high > h) (slice highs (nat (i - window)) (nat i)) \<and>
                  list_all (\<lambda>h. high > h) (slice highs (nat (i + 1)) (nat (i + 1 + window)))
               then resistances @ [high] else resistances);
            supports' =
              (if list_all (\<lambda>l. low < l) (slice lows (nat (i - window)) (nat i)) \<and>
                  list_all (\<lambda>l. low < l) (slice lows (nat (i + 1)) (nat (i + 1 + window)))
               then supports @ [low] else supports)
        in swing_scan df window is (supports', resistances'))"

definition find_nearest_levels ::
  "bar list \<Rightarrow> int \<Rightarrow> int \<Rightarrow> int \<Rightarrow> error + real list \<times> real list" where
  "find_nearest_levels df window lookback max_levels =
     bindE (iloc_neg df 1) (\<lambda>last_row.
       let recent_close = bar_close last_row;
           max_index = min (max (int (length df) - window) 0) lookback
       in bindE (swing_scan df window [window..max_index - 1] ([], []))
            (\<lambda>(supports, resistances).
               let support_levels =
                     py_slice_to (rev (sort (filter (\<lambda>s. s < recent_close) supports))) max_levels;
                   resistance_levels =
                     py_slice_to (sort (filter (\<lambda>r. r > recent_close) resistances)) max_levels
               in Inr (support_levels, resistance_levels)))"

definition is_near_support_or_resistance :: "real \<Rightarrow> real list \<Rightarrow> real list \<Rightarrow> real \<Rightarrow> bool" where
  "is_near_support_or_resistance price support_levels resistance_levels threshold =
     list_ex (\<lambda>lvl. \<bar>price - lvl\<bar> \<le> threshold) (support_levels @ resistance_levels)"

section \<open>Trade decision orchestrator (main.py): direction vote\<close>

text \<open>
  \<^verbatim>\<open>max(iterable, key=f)\<close> keeps the first element whose key is largest: a later element
  replaces the current best only when its key is strictly greater.
\<close>

fun max_by :: "('a \<Rightarrow> nat) \<Rightarrow> 'a \<Rightarrow> 'a list \<Rightarrow> 'a" where
  "max_by key best [] = best"
| "max_by key best (x # xs) = (if key x > key best then max_by key x xs else max_by key best xs)"

definition py_max :: "('a \<Rightarrow> nat) \<Rightarrow> 'a list \<Rightarrow> 'a option" where
  "py_max key xs = (case xs of [] \<Rightarrow> None | x # rest \<Rightarrow> Some (max_by key x rest))"

text \<open>A sub-signal is kept when it is truthy: not None and not the empty string.\<close>

definition truthy :: "string option \<Rightarrow> bool" where
  "truthy d = (case d of None \<Rightarrow> False | Some s \<Rightarrow> s \<noteq> [])"

text \<open>
  The direction vote, \<^verbatim>\<open>max(set(directions), key=directions.count)\<close>. The order in which a
  Python set of strings is iterated is fixed neither by the language nor by the list the
  set was built from (string hashes are salted per process), so the vote takes it as a
  parameter: \<open>set_iter xs\<close> is the sequence in which \<^verbatim>\<open>set(xs)\<close> yields its elements.
\<close>

definition set_order :: "(string list \<Rightarrow> string list) \<Rightarrow> string list \<Rightarrow> bool" where
  "set_order set_iter xs = (distinct (set_iter xs) \<and> set (set_iter xs) = set xs)"

definition direction_vote ::
  "(string list \<Rightarrow> string list) \<Rightarrow> string option \<Rightarrow> string option \<Rightarrow> string option \<Rightarrow> string option" where
  "direction_vote set_iter momentum_dir bollinger_dir rsi_dir =
     (let directions = map the (filter truthy [momentum_dir, bollinger_dir, rsi_dir])
      in if directions = [] then None
         else py_max (count_list directions) (set_iter directions))"

section \<open>Chart pattern detector (pattern\_detector.py): the selection\<close>

text \<open>
  The twelve detectors are predicates on a bar window. They rest on numpy and, when it is
  installed, on scipy's \<^verbatim>\<open>argrelextrema\<close>, so they are parameters here: the selection of
  \<^verbatim>\<open>detect_pattern\<close> only asks each of them for its verdict on the window.
\<close>

record detectors =
  detect_double_bottom :: "bar list \<Rightarrow> bool"
  detect_double_top :: "bar list \<Rightarrow> bool"
  detect_head_and_shoulders :: "bar list \<Rightarrow> bool"
  detect_inverse_head_and_shoulders :: "bar list \<Rightarrow> bool"
  detect_ascending_triangle :: "bar list \<Rightarrow> bool"
  detect_descending_triangle :: "bar list \<Rightarrow> bool"
  detect_symmetric_triangle :: "bar list \<Rightarrow> bool"
  detect_wedge :: "bar list \<Rightarrow> bool"
  detect_flag :: "bar list \<Rightarrow> bool"
  detect_pennant :: "bar list \<Rightarrow> bool"
  detect_cup_and_handle :: "bar list \<Rightarrow> bool"
  detect_rectangle :: "bar list \<Rightarrow> bool"

text \<open>A match is the dictionary \<^verbatim>\<open>{"direction": d, "pattern": name}\<close>; d may be None.\<close>

type_synonym pattern_match = "string option \<times> string"

definition patterns :: "detectors \<Rightarrow> ((bar list \<Rightarrow> bool) \<times> string option \<times> string) list" where
  "patterns D =
     [(detect_double_bottom D, Some ''BUY'', ''Double Bottom''),
      (detect_double_top D, Some ''SELL'', ''Double Top''),
      (detect_head_and_shoulders D, Some ''SELL'', ''Head and Shoulders''),
      (detect_inverse_head_and_shoulders D, Some ''BUY'', ''Inverse Head and Shoulders''),
      (detect_ascending_triangle D, Some ''BUY'', ''Ascending Triangle''),
      (detect_descending_triangle D, Some ''SELL'', ''Descending Triangle''),
      (detect_symmetric_triangle D, None, ''Symmetric Triangle''),
      (detect_wedge D, None, ''Wedge''),
      (detect_flag D, None, ''Flag''),
      (detect_pennant D, None, ''Pennant''),
      (detect_cup_and_handle D, Some ''BUY'', ''Cup and Handle''),
      (detect_rectangle D, None, ''Rectangle'')]"

text \<open>The loop of \<^verbatim>\<open>detect_pattern\<close>, with \<open>fallback\<close> as its state.\<close>

fun pattern_scan ::
  "((bar list \<Rightarrow> bool) \<times> string option \<times> string) list \<Rightarrow> bar list \<Rightarrow> string option \<Rightarrow>
   pattern_match option \<Rightarrow> pattern_match option" where
  "pattern_scan [] df expected_direction fallback = fallback"
| "pattern_scan ((func, direction, name) # rest) df expected_direction fallback =
     (if func df then
        if truthy expected_direction \<and> direction = expected_direction
        then Some (direction, name)
        else pattern_scan rest df expected_direction
               (if fallback = None then Some (direction, name) else fallback)
      else pattern_scan rest df expected_direction fallback)"

definition detect_pattern :: "detectors \<Rightarrow> bar list \<Rightarrow> string option \<Rightarrow> pattern_match option" where
  "detect_pattern D df expected_direction = pattern_scan (patterns D) df expected_direction None"

section \<open>Trade decision orchestrator (main.py): score accumulation\<close>

definition CANDLE_PATTERN_LOOKBACK :: nat where "CANDLE_PATTERN_LOOKBACK = 3"
definition CHART_PATTERN_LOOKBACK :: nat where "CHART_PATTERN_LOOKBACK = 40"

text \<open>\<^verbatim>\<open>any(p(df) for p in ps)\<close>: the generator stops at the first pattern that holds.\<close>

fun any_pattern :: "(bar list \<Rightarrow> error + bool) list \<Rightarrow> bar list \<Rightarrow> error + bool" where
  "any_pattern [] df = Inr False"
| "any_pattern (p # ps) df = bindE (p df) (\<lambda>r. if r then Inr True else any_pattern ps df)"

definition detect_candlestick_pattern :: "bar list \<Rightarrow> string \<Rightarrow> error + bool" where
  "detect_candlestick_pattern df direction =
     (if direction = ''BUY'' then any_pattern BUY_PATTERNS df
      else if direction = ''SELL'' then any_pattern SELL_PATTERNS df
      else Inr False)"

text \<open>\<^verbatim>\<open>series.rolling(window).min()\<close> and \<^verbatim>\<open>.max()\<close>: NaN until the window is full.\<close>

definition rolling_min :: "nat \<Rightarrow> real list \<Rightarrow> real option list" where
  "rolling_min w xs =
     map (\<lambda>i. if i + 1 < w then None else Some (Min (set (take w (drop (i + 1 - w) xs)))))
         [0..<length xs]"

definition rolling_max :: "nat \<Rightarrow> real list \<Rightarrow> real option list" where
  "rolling_max w xs =
     map (\<lambda>i. if i + 1 < w then None else Some (Max (set (take w (drop (i + 1 - w) xs)))))
         [0..<length xs]"

definition is_respecting_trendline :: "bar list \<Rightarrow> string \<Rightarrow> error + bool" where
  "is_respecting_trendline df direction =
     (if length df < 10 then Inr False
      else
        let lows = rolling_min 5 (map bar_low df);
            highs = rolling_max 5 (map bar_high df)
        in if direction = ''BUY'' then
             bindE (iloc_neg df 1) (\<lambda>last_row. bindE (iloc_neg lows 5) (\<lambda>l.
               Inr (nan_greater (bar_close last_row) l)))
           else if direction = ''SELL'' then
             bindE (iloc_neg df 1) (\<lambda>last_row. bindE (iloc_neg highs 5) (\<lambda>h.
               Inr (nan_less (bar_close last_row) h)))
           else Inr False)"

definition weight_table :: "(string \<times> real) list" where
  "weight_table =
     [(''trend'', 0.2),
      (''momentum'', 0.2),
      (''rsi'', 0.1),
      (''bollinger'', 0.1),
      (''support_resistance'', 0.15),
      (''candle'', 0.15),
      (''chart'', 0.1),
      (''trendline'', 0.1)]"

text \<open>The dictionary \<^verbatim>\<open>weights\<close>; a key that is not in it raises KeyError.\<close>

definition weights :: "string \<rightharpoonup> real" where
  "weights = map_of weight_table"

text \<open>One step of the accumulation: \<^verbatim>\<open>score += weights[key]; reasons.append(reason)\<close>.\<close>

definition add_weight ::
  "bool \<Rightarrow> string \<Rightarrow> string \<Rightarrow> real \<times> string list \<Rightarrow> error + real \<times> string list" where
  "add_weight agrees key reason acc =
     (if agrees then
        (case weights key of
           None \<Rightarrow> Inl KeyError
         | Some w \<Rightarrow> Inr (fst acc + w, snd acc @ [reason]))
      else Inr acc)"

text \<open>
  Lines 233--271 of \<^verbatim>\<open>get_trade_decision\<close>. The chosen direction and the sub-signals
  computed before (trend, momentum, oscillator, band, proximity to a level) are inputs;
  the trendline test, the candlestick confirmation and the chart pattern are computed
  from the M15 series as the source does.
\<close>

definition score_accumulation ::
  "detectors \<Rightarrow> bar list \<Rightarrow> string \<Rightarrow> string \<Rightarrow> string option \<Rightarrow> string option \<Rightarrow> string option \<Rightarrow>
   bool \<Rightarrow> error + real \<times> string list" where
  "score_accumulation D df_m15 direction trend_dir momentum_dir rsi_dir bollinger_dir near_zone =
     (let df_candles = tail df_m15 CANDLE_PATTERN_LOOKBACK;
          df_chart_m15 = tail df_m15 CHART_PATTERN_LOOKBACK
      in
      bindE (add_weight (trend_dir = (if direction = ''BUY'' then ''uptrend'' else ''downtrend''))
               ''trend'' (''Trend='' @ trend_dir) (0, [])) (\<lambda>acc.
      bindE (add_weight (momentum_dir = Some direction)
               ''momentum'' (''Momentum='' @ direction) acc) (\<lambda>acc.
      bindE (add_weight (rsi_dir = Some direction) ''rsi'' (''RSI='' @ direction) acc) (\<lambda>acc.
      bindE (add_weight (bollinger_dir = Some direction)
               ''bollinger'' (''Bollinger='' @ direction) acc) (\<lambda>acc.
      bindE (add_weight near_zone ''support_resistance'' ''Near support/resistance'' acc) (\<lambda>acc.
      bindE (is_respecting_trendline df_m15 direction) (\<lambda>respecting.
      bindE (add_weight respecting ''trendline'' ''Respecting trendline'' acc) (\<lambda>acc.
      bindE (detect_candlestick_pattern (butlast df_candles) direction) (\<lambda>detected.
      bindE (if detected then
               bindE (iloc_neg df_candles 1) (\<lambda>last_row.
                 add_weight ((direction = ''BUY'' \<and> bar_close last_row > bar_open last_row) \<or>
                             (direction = ''SELL'' \<and> bar_close last_row < bar_open last_row))
                   ''candle'' ''Candle pattern (confirmed)'' acc)
             else Inr acc) (\<lambda>acc.
      (case detect_pattern D df_chart_m15 (Some direction) of
         Some (d, name) \<Rightarrow> add_weight (d = Some direction) ''chart'' (''Chart='' @ name) acc
       | None \<Rightarrow> Inr acc)))))))))))"

text \<open>Detectors for the examples: only the double bottom fires; none fires.\<close>

definition no_detector :: detectors where
  "no_detector =
     \<lparr>detect_double_bottom = (\<lambda>df. False), detect_double_top = (\<lambda>df. False),
      detect_head_and_shoulders = (\<lambda>df. False),
      detect_inverse_head_and_shoulders = (\<lambda>df. False),
      detect_ascending_triangle = (\<lambda>df. False), detect_descending_triangle = (\<lambda>df. False),
      detect_symmetric_triangle = (\<lambda>df. False), detect_wedge = (\<lambda>df. False),
      detect_flag = (\<lambda>df. False), detect_pennant = (\<lambda>df. False),
      detect_cup_and_handle = (\<lambda>df. False), detect_rectangle = (\<lambda>df. False)\<rparr>"


section \<open>Reversal consensus engine (reversal\_signal.py)\<close>

text \<open>\<^verbatim>\<open>s.upper()\<close> on ASCII letters, and the substring test \<^verbatim>\<open>needle in s\<close>.\<close>

definition upper :: "string \<Rightarrow> string" where
  "upper s = map (\<lambda>c. let n = (of_char c :: nat) in
                        if 97 \<le> n \<and> n \<le> 122 then char_of (n - 32) else c) s"

fun starts_with :: "string \<Rightarrow> string \<Rightarrow> bool" where
  "starts_with s [] = True"
| "starts_with [] (c # needle) = False"
| "starts_with (d # s) (c # needle) = (d = c \<and> starts_with s needle)"

fun contains :: "string \<Rightarrow> string \<Rightarrow> bool" where
  "contains [] needle = (needle = [])"
| "contains (d # s) needle = (starts_with (d # s) needle \<or> contains s needle)"

definition reversal_patterns :: "(bar list \<Rightarrow> error + bool) list" where
  "reversal_patterns =
     [is_bullish_engulfing, is_bearish_engulfing, is_hammer, is_shooting_star,
      is_morning_star, is_evening_star, is_doji, is_gravestone_doji,
      is_dragonfly_doji, is_tweezer_top, is_tweezer_bottom,
      is_bullish_harami, is_bearish_harami]"

text \<open>The keys of the dictionary \<^verbatim>\<open>TIMEFRAMES\<close>, in its insertion order.\<close>

definition TIMEFRAMES :: "string list" where
  "TIMEFRAMES = [''M1'', ''M5'', ''M15'', ''M30'', ''H1'', ''H2'', ''H4'', ''D1'']"

definition TF_CANDLE_COUNTS :: "string \<rightharpoonup> nat" where
  "TF_CANDLE_COUNTS = map_of
     [(''M1'', 5000), (''M5'', 5000), (''M15'', 3000), (''M30'', 1500),
      (''H1'', 1500), (''H2'', 1500), (''H4'', 2000), (''D1'', 2000)]"

definition pip_size :: "string \<Rightarrow> real" where
  "pip_size symbol =
     (let s = upper symbol in
      if contains s ''XAU'' then 0.1
      else if contains s ''JPY'' then 0.01
      else 0.0001)"

text \<open>\<^verbatim>\<open>series.mean()\<close> and \<^verbatim>\<open>series.std()\<close> (the sample deviation, \<open>ddof = 1\<close>).\<close>

definition mean :: "real list \<Rightarrow> real" where
  "mean xs = sum_list xs / real (length xs)"

definition std :: "real list \<Rightarrow> real" where
  "std xs = sqrt (sum_list (map (\<lambda>x. (x - mean xs)\<^sup>2) xs) / real (length xs - 1))"

text \<open>
  The body of the loop of \<^verbatim>\<open>detect_reversal_signal\<close> for one timeframe: does this
  timeframe confirm the direction? Every \<^verbatim>\<open>continue\<close> answers no. The candle source
  \<^verbatim>\<open>fetch_candles_fn\<close> is the parameter \<open>fetch\<close>, asked by symbol, timeframe and count.
\<close>

definition timeframe_confirms ::
  "(string \<Rightarrow> string \<Rightarrow> nat \<Rightarrow> bar list option) \<Rightarrow> string \<Rightarrow> string \<Rightarrow> string \<Rightarrow> error + bool" where
  "timeframe_confirms fetch symbol direction label =
     (let pip = pip_size symbol;
          count = (case TF_CANDLE_COUNTS label of Some n \<Rightarrow> n | None \<Rightarrow> 300)
      in
      case fetch symbol label count of
        None \<Rightarrow> Inr False
      | Some df_full \<Rightarrow>
          (case TF_CANDLE_COUNTS label of
             None \<Rightarrow> Inl KeyError
           | Some required \<Rightarrow>
               if length df_full < required then Inr False
               else
                 bindE (iloc_neg df_full 1) (\<lambda>last_row.
                 let current_price = bar_close last_row;
                     df_recent = tail df_full required
                 in
                 if df_recent = [] \<or> length df_recent < 5 then Inr False
                 else
                   let directions = map (\<lambda>b. sgn (bar_close b - bar_open b)) df_recent;
                       body_sizes = map (\<lambda>b. \<bar>bar_close b - bar_open b\<bar>) df_recent;
                       avg_body = mean body_sizes
                   in
                   if sum_list directions \<le> 2 \<and> std body_sizes < avg_body * 0.5 then Inr False
                   else
                     bindE (any_pattern reversal_patterns df_recent) (\<lambda>pattern_match.
                     bindE (find_nearest_levels df_full 20 500 3) (\<lambda>(supports, resistances).
                     let sr_threshold = 20 * pip;
                         near_zone = is_near_support_or_resistance current_price supports
                                       resistances sr_threshold;
                         breakout_buffer = max (10 * pip) (0.001 * current_price);
                         broke_level =
                           ((direction = ''BUY'' \<and> resistances \<noteq> [] \<and>
                             current_price > Max (set resistances) + breakout_buffer) \<or>
                            (direction = ''SELL'' \<and> supports \<noteq> [] \<and>
                             current_price < Min (set supports) - breakout_buffer))
                     in
                     if near_zone \<and> \<not> broke_level then Inr False
                     else
                       bindE (iloc_neg df_full 5) (\<lambda>row5.
                       bindE (iloc_neg df_full 10) (\<lambda>row10.
                       let slope_recent = bar_close last_row - bar_close row5;
                           slope_previous = bar_close row5 - bar_close row10;
                           momentum_fading = (\<bar>slope_recent\<bar> < \<bar>slope_previous\<bar>);
                           reversing_candles =
                             length (filter (\<lambda>d. d = (if direction = ''BUY'' then - 1 else 1))
                                       directions)
                       in Inr (pattern_match \<or> (momentum_fading \<and> reversing_candles \<ge> 2)))))))))"

text \<open>The loop over the timeframes, with \<open>confirmed_timeframes\<close> as its state.\<close>

fun reversal_scan ::
  "(string \<Rightarrow> string \<Rightarrow> nat \<Rightarrow> bar list option) \<Rightarrow> string \<Rightarrow> string \<Rightarrow> string list \<Rightarrow> string list \<Rightarrow>
   error + string list" where
  "reversal_scan fetch symbol direction [] confirmed_timeframes = Inr confirmed_timeframes"
| "reversal_scan fetch symbol direction (label # labels) confirmed_timeframes =
     bindE (timeframe_confirms fetch symbol direction label) (\<lambda>confirmed.
       reversal_scan fetch symbol direction labels
         (if confirmed then confirmed_timeframes @ [label] else confirmed_timeframes))"

definition detect_reversal_signal ::
  "(string \<Rightarrow> string \<Rightarrow> nat \<Rightarrow> bar list option) \<Rightarrow> string \<Rightarrow> string \<Rightarrow> error + bool" where
  "detect_reversal_signal fetch symbol direction =
     bindE (reversal_scan fetch symbol direction TIMEFRAMES []) (\<lambda>confirmed_timeframes.
       Inr (length confirmed_timeframes \<ge> 4))"

text \<open>Candle sources for the examples: flat series of hammers on some timeframes only.\<close>

definition hammer_bar :: bar where
  "hammer_bar = \<lparr>bar_open = 10, bar_high = 10.2, bar_low = 9, bar_close = 10.1\<rparr>"

definition fetch_four :: "string \<Rightarrow> string \<Rightarrow> nat \<Rightarrow> bar list option" where
  "fetch_four symbol label count =
     (if label \<in> set [''H1'', ''H2'', ''H4'', ''D1''] then Some (replicate 2000 hammer_bar)
      else None)"

definition fetch_three :: "string \<Rightarrow> string \<Rightarrow> nat \<Rightarrow> bar list option" where
  "fetch_three symbol label count =
     (if label \<in> set [''H2'', ''H4'', ''D1''] then Some (replicate 2000 hammer_bar)
      else None)"

definition fetch_none :: "string \<Rightarrow> string \<Rightarrow> nat \<Rightarrow> bar list option" where
  "fetch_none symbol label count = None"

section \<open>Supply/demand zone engine: the multi-timeframe fallback scan\<close>

definition M15_PAD_FACTOR :: real where "M15_PAD_FACTOR = 0.5"
definition JPY_ABS_PAD :: real where "JPY_ABS_PAD = 0.01"
definition PATTERN_LOOKBACK :: nat where "PATTERN_LOOKBACK = 3"

definition get_zone_tolerance :: "string \<Rightarrow> real" where
  "get_zone_tolerance symbol =
     (let s = upper symbol in
      if contains s ''XAU'' then 1.0
      else if contains s ''JPY'' then 0.03
      else 0.0003)"

text \<open>
  Step 1 of \<^verbatim>\<open>find_zones_fallback\<close>: the price tolerance, half the last M15 ATR when the
  M15 frame carries the column \<^verbatim>\<open>atr_14\<close> (NaN when that cell is NaN), a static pad
  otherwise.
\<close>

definition zone_tolerance :: "(string \<rightharpoonup> frame) \<Rightarrow> string \<Rightarrow> error + real option" where
  "zone_tolerance df_dict symbol =
     (let static = Inr (Some (if contains (upper symbol) ''JPY'' then JPY_ABS_PAD
                              else get_zone_tolerance symbol))
      in case df_dict ''M15'' of
           None \<Rightarrow> static
         | Some m15_df \<Rightarrow>
             (case atr_14 m15_df of
                None \<Rightarrow> static
              | Some col \<Rightarrow>
                  bindE (iat_last col) (\<lambda>m15_atr.
                    Inr (map_option (\<lambda>a. a * M15_PAD_FACTOR) m15_atr))))"

definition tf_finders :: "(string \<times> (frame \<Rightarrow> error + zone list \<times> zone list)) list" where
  "tf_finders =
     [(''M30'', find_m30_zones),
      (''H1'', find_h1_zones),
      (''H2'', find_h2_zones),
      (''H4'', find_h4_zones),
      (''D1'', find_d1_zones)]"

text \<open>\<^verbatim>\<open>low - zone_tol <= curr_price <= high + zone_tol\<close>; false for a NaN tolerance.\<close>

definition in_tolerance :: "real option \<Rightarrow> real \<Rightarrow> zone \<Rightarrow> bool" where
  "in_tolerance zone_tol curr_price z =
     (case zone_tol of
        None \<Rightarrow> False
      | Some tol \<Rightarrow> fst z - tol \<le> curr_price \<and> curr_price \<le> snd z + tol)"

text \<open>
  The chart-pattern confirmation tried first on a touched zone: a pattern of the proposed
  direction on the last \<open>PATTERN_LOOKBACK\<close> bars of the M15 frame.
\<close>

definition chart_confirms :: "detectors \<Rightarrow> frame option \<Rightarrow> string \<Rightarrow> bool" where
  "chart_confirms D m15_df direction =
     (case m15_df of
        None \<Rightarrow> False
      | Some m15 \<Rightarrow>
          if length (rows m15) \<ge> PATTERN_LOOKBACK then
            (case detect_pattern D (tail (rows m15) PATTERN_LOOKBACK) (Some direction) of
               None \<Rightarrow> False
             | Some (d, name) \<Rightarrow> d = Some direction)
          else False)"

text \<open>
  The inner loop over the zones of one timeframe: true when some touched zone is confirmed
  (the function returns from inside the loop), false when the loop runs to its end.
\<close>

fun zone_confirm_scan ::
  "detectors \<Rightarrow> (string \<Rightarrow> string \<Rightarrow> nat \<Rightarrow> bar list option) \<Rightarrow> frame option \<Rightarrow> string \<Rightarrow> string \<Rightarrow>
   real option \<Rightarrow> real \<Rightarrow> zone list \<Rightarrow> error + bool" where
  "zone_confirm_scan D fetch m15_df symbol direction zone_tol curr_price [] = Inr False"
| "zone_confirm_scan D fetch m15_df symbol direction zone_tol curr_price (z # zones) =
     (if in_tolerance zone_tol curr_price z then
        if chart_confirms D m15_df direction then Inr True
        else bindE (detect_reversal_signal fetch symbol direction) (\<lambda>reversal.
               if reversal then Inr True
               else zone_confirm_scan D fetch m15_df symbol direction zone_tol curr_price zones)
      else zone_confirm_scan D fetch m15_df symbol direction zone_tol curr_price zones)"

text \<open>Step 2: the loop over the timeframes, fastest first.\<close>

fun fallback_scan ::
  "detectors \<Rightarrow> (string \<Rightarrow> string \<Rightarrow> nat \<Rightarrow> bar list option) \<Rightarrow> (string \<rightharpoonup> frame) \<Rightarrow> string \<Rightarrow> string \<Rightarrow>
   real option \<Rightarrow> real \<Rightarrow> (string \<times> (frame \<Rightarrow> error + zone list \<times> zone list)) list \<Rightarrow>
   error + (zone list \<times> zone list \<times> string option) option" where
  "fallback_scan D fetch df_dict symbol direction zone_tol curr_price [] = Inr None"
| "fallback_scan D fetch df_dict symbol direction zone_tol curr_price ((tf, fn) # finders) =
     (case df_dict tf of
        None \<Rightarrow> fallback_scan D fetch df_dict symbol direction zone_tol curr_price finders
      | Some df \<Rightarrow>
          if rows df = [] then
            fallback_scan D fetch df_dict symbol direction zone_tol curr_price finders
          else
            bindE (fn df) (\<lambda>(dz, sz).
              let zones = (if direction = ''BUY'' then dz else sz) in
              bindE (zone_confirm_scan D fetch (df_dict ''M15'') symbol direction zone_tol
                       curr_price zones) (\<lambda>matched.
                if matched then Inr (Some (dz, sz, Some tf))
                else fallback_scan D fetch df_dict symbol direction zone_tol curr_price finders)))"

text \<open>
  Step 3: the nearest zone of the required side over all timeframes, by the distance of its
  midpoint to the price. It is only printed; the scan computes the zones of every timeframe
  once more for it.
\<close>

fun nearest_in :: "real \<Rightarrow> string \<Rightarrow> zone list \<Rightarrow> (real \<times> zone \<times> string) option \<Rightarrow> (real \<times> zone \<times> string) option" where
  "nearest_in curr_price tf [] best = best"
| "nearest_in curr_price tf ((low, high) # zones) best =
     (let mid = (low + high) / 2; d = \<bar>mid - curr_price\<bar> in
      nearest_in curr_price tf zones
        (case best of
           None \<Rightarrow> Some (d, (low, high), tf)
         | Some (best_dist, nearest, nearest_tf) \<Rightarrow>
             if d < best_dist then Some (d, (low, high), tf) else best))"

fun nearest_scan ::
  "(string \<rightharpoonup> frame) \<Rightarrow> string \<Rightarrow> real \<Rightarrow> (string \<times> (frame \<Rightarrow> error + zone list \<times> zone list)) list \<Rightarrow>
   (real \<times> zone \<times> string) option \<Rightarrow> error + (real \<times> zone \<times> string) option" where
  "nearest_scan df_dict direction curr_price [] best = Inr best"
| "nearest_scan df_dict direction curr_price ((tf, fn) # finders) best =
     (case df_dict tf of
        None \<Rightarrow> nearest_scan df_dict direction curr_price finders best
      | Some df \<Rightarrow>
          if rows df = [] then nearest_scan df_dict direction curr_price finders best
          else bindE (fn df) (\<lambda>(dz, sz).
                 nearest_scan df_dict direction curr_price finders
                   (nearest_in curr_price tf (if direction = ''BUY'' then dz else sz) best)))"

definition find_zones_fallback ::
  "detectors \<Rightarrow> (string \<Rightarrow> string \<Rightarrow> nat \<Rightarrow> bar list option) \<Rightarrow> (string \<rightharpoonup> frame) \<Rightarrow> string \<Rightarrow> real \<Rightarrow>
   string \<Rightarrow> error + zone list \<times> zone list \<times> string option" where
  "find_zones_fallback D fetch df_dict direction curr_price symbol =
     bindE (zone_tolerance df_dict symbol) (\<lambda>zone_tol.
     bindE (fallback_scan D fetch df_dict symbol direction zone_tol curr_price tf_finders) (\<lambda>found.
       case found of
         Some result \<Rightarrow> Inr result
       | None \<Rightarrow>
           bindE (nearest_scan df_dict direction curr_price tf_finders None) (\<lambda>nearest.
             Inr ([], [], None))))"

text \<open>
  The zones of the required side that the scan sees on one timeframe (none when the frame
  is missing or empty).
\<close>

definition required_zones ::
  "(string \<rightharpoonup> frame) \<Rightarrow> string \<Rightarrow> string \<times> (frame \<Rightarrow> error + zone list \<times> zone list) \<Rightarrow> zone list" where
  "required_zones df_dict direction finder =
     (case df_dict (fst finder) of
        None \<Rightarrow> []
      | Some df \<Rightarrow>
          if rows df = [] then []
          else (case snd finder df of
                  Inl e \<Rightarrow> []
                | Inr (dz, sz) \<Rightarrow> if direction = ''BUY'' then dz else sz))"

text \<open>
  The zone gate of \<^verbatim>\<open>get_trade_decision\<close> (lines 285--290): the decision is rejected when
  the list of the required side that the fallback scan returned is empty.
\<close>

definition zone_gate_rejects :: "string \<Rightarrow> zone list \<times> zone list \<times> string option \<Rightarrow> bool" where
  "zone_gate_rejects direction result =
     (case result of (zones_d, zones_s, tf_used) \<Rightarrow>
        (direction = ''BUY'' \<and> zones_d = []) \<or> (direction = ''SELL'' \<and> zones_s = []))"

text \<open>A daily frame for the examples: eleven bars whose first ten rise from 9 to 12.\<close>

definition rising_d1 :: frame where
  "rising_d1 =
     \<lparr>rows =
        [\<lparr>bar_open = 10, bar_high = 10.5, bar_low = 9, bar_close = 10\<rparr>,
         \<lparr>bar_open = 10, bar_high = 10.5, bar_low = 9.5, bar_close = 10.2\<rparr>,
         \<lparr>bar_open = 10.2, bar_high = 10.6, bar_low = 10, bar_close = 10.4\<rparr>,
         \<lparr>bar_open = 10.4, bar_high = 10.8, bar_low = 10.2, bar_close = 10.6\<rparr>,
         \<lparr>bar_open = 10.6, bar_high = 11, bar_low = 10.4, bar_close = 10.8\<rparr>,
         \<lparr>bar_open = 10.8, bar_high = 11.2, bar_low = 10.6, bar_close = 11\<rparr>,
         \<lparr>bar_open = 11, bar_high = 11.4, bar_low = 10.8, bar_close = 11.2\<rparr>,
         \<lparr>bar_open = 11.2, bar_high = 11.6, bar_low = 11, bar_close = 11.4\<rparr>,
         \<lparr>bar_open = 11.4, bar_high = 11.8, bar_low = 11.2, bar_close = 11.6\<rparr>,
         \<lparr>bar_open = 11.6, bar_high = 12, bar_low = 11.4, bar_close = 11.8\<rparr>,
         \<lparr>bar_open = 11.8, bar_high = 12, bar_low = 11.6, bar_close = 11.9\<rparr>],
      atr_14 = None\<rparr>"

section \<open>Candlestick predicates on short series\<close>

lemma candle_never_raises:
  "is_bullish_engulfing df \<noteq> Inl e" "is_bearish_engulfing df \<noteq> Inl e"
  "is_hammer df \<noteq> Inl e" "is_shooting_star df \<noteq> Inl e" "is_doji df \<noteq> Inl e"
  "is_morning_star df \<noteq> Inl e" "is_evening_star df \<noteq> Inl e"
  "is_gravestone_doji df \<noteq> Inl e" "is_dragonfly_doji df \<noteq> Inl e"
  "is_tweezer_top df \<noteq> Inl e" "is_tweezer_bottom df \<noteq> Inl e"
  "is_bullish_harami df \<noteq> Inl e" "is_bearish_harami df \<noteq> Inl e"
  by (auto simp add: candle_defs bindE_def iloc_neg_def Let_def Suc_le_eq)

text \<open>
  Claim C7. A candlestick predicate given fewer bars than it needs (1 for the single-candle
  patterns, 2 for the two-candle patterns, 3 for the three-candle patterns) returns false
  and raises nothing: its length guard answers before any row is read.
\<close>

theorem short_series_false:
  "(length df < 1 \<longrightarrow>
      is_hammer df = Inr False \<and> is_shooting_star df = Inr False \<and> is_doji df = Inr False \<and>
      is_gravestone_doji df = Inr False \<and> is_dragonfly_doji df = Inr False) \<and>
   (length df < 2 \<longrightarrow>
      is_bullish_engulfing df = Inr False \<and> is_bearish_engulfing df = Inr False \<and>
      is_tweezer_top df = Inr False \<and> is_tweezer_bottom df = Inr False \<and>
      is_bullish_harami df = Inr False \<and> is_bearish_harami df = Inr False) \<and>
   (length df < 3 \<longrightarrow>
      is_morning_star df = Inr False \<and> is_evening_star df = Inr False)"
  by (simp add: candle_defs)

theorem short_series_false_witness:
  "is_hammer [] = Inr False \<and> is_shooting_star [] = Inr False \<and> is_doji [] = Inr False \<and>
   is_gravestone_doji [] = Inr False \<and> is_dragonfly_doji [] = Inr False \<and>
   is_bullish_engulfing [\<lparr>bar_open = 1, bar_high = 3, bar_low = 0, bar_close = 2\<rparr>] = Inr False \<and>
   is_bearish_engulfing [\<lparr>bar_open = 1, bar_high = 3, bar_low = 0, bar_close = 2\<rparr>] = Inr False \<and>
   is_tweezer_top [\<lparr>bar_open = 1, bar_high = 3, bar_low = 0, bar_close = 2\<rparr>] = Inr False \<and>
   is_tweezer_bottom [\<lparr>bar_open = 1, bar_high = 3, bar_low = 0, bar_close = 2\<rparr>] = Inr False \<and>
   is_bullish_harami [\<lparr>bar_open = 1, bar_high = 3, bar_low = 0, bar_close = 2\<rparr>] = Inr False \<and>
   is_bearish_harami [\<lparr>bar_open = 1, bar_high = 3, bar_low = 0, bar_close = 2\<rparr>] = Inr False \<and>
   is_morning_star [\<lparr>bar_open = 2, bar_high = 3, bar_low = 0, bar_close = 1\<rparr>,
                    \<lparr>bar_open = 1, bar_high = 3, bar_low = 0, bar_close = 2\<rparr>] = Inr False \<and>
   is_evening_star [\<lparr>bar_open = 1, bar_high = 3, bar_low = 0, bar_close = 2\<rparr>,
                    \<lparr>bar_open = 2, bar_high = 3, bar_low = 0, bar_close = 1\<rparr>] = Inr False"
  using short_series_false [of "[]"]
    short_series_false [of "[\<lparr>bar_open = 1, bar_high = 3, bar_low = 0, bar_close = 2\<rparr>]"]
    short_series_false [of "[\<lparr>bar_open = 2, bar_high = 3, bar_low = 0, bar_close = 1\<rparr>,
                    \<lparr>bar_open = 1, bar_high = 3, bar_low = 0, bar_close = 2\<rparr>]"]
    short_series_false [of "[\<lparr>bar_open = 1, bar_high = 3, bar_low = 0, bar_close = 2\<rparr>,
                    \<lparr>bar_open = 2, bar_high = 3, bar_low = 0, bar_close = 1\<rparr>]"]
  by simp


section \<open>Zones keep low \<le> high\<close>

lemma merge_into_ordered:
  "l \<le> h \<Longrightarrow> \<forall>z\<in>set merged. fst z \<le> snd z \<Longrightarrow> \<forall>z\<in>set (merge_into (l, h) merged). fst z \<le> snd z"
  by (induction merged) (fastforce simp: min_def max_def split: if_splits)+

lemma merge_loop_ordered:
  "\<forall>z\<in>set zones. fst z \<le> snd z \<Longrightarrow> \<forall>z\<in>set merged. fst z \<le> snd z \<Longrightarrow>
   \<forall>z\<in>set (merge_loop merged zones). fst z \<le> snd z"
proof (induction zones arbitrary: merged)
  case Nil
  then show ?case by simp
next
  case (Cons z zones)
  obtain l h where z: "z = (l, h)" by (cases z)
  from Cons.prems(1) z have lh: "l \<le> h" and rest: "\<forall>z\<in>set zones. fst z \<le> snd z" by auto
  show ?case
  proof (cases "l = h")
    case True
    with Cons.IH [OF rest Cons.prems(2)] z show ?thesis by simp
  next
    case False
    from merge_into_ordered [OF lh Cons.prems(2)]
    have "\<forall>z\<in>set (merge_into (l, h) merged). fst z \<le> snd z" .
    from Cons.IH [OF rest this] False z show ?thesis by simp
  qed
qed

lemma set_py_slice_from: "set (py_slice_from xs k) \<subseteq> set xs"
  by (auto simp: py_slice_from_def dest: in_set_dropD)

lemma merge_zones_ordered:
  "\<forall>z\<in>set zones. fst z \<le> snd z \<Longrightarrow> \<forall>z\<in>set (merge_zones zones max_zones). fst z \<le> snd z"
  using merge_loop_ordered [of zones "[]"] set_py_slice_from [of "merge_loop [] zones" "- max_zones"]
  by (auto simp: merge_zones_def)

lemma set_iloc_slice: "set (iloc_slice xs a b) \<subseteq> set xs"
  by (auto simp: iloc_slice_def Let_def dest: in_set_takeD in_set_dropD)

lemma window_low_le_high:
  assumes "w \<noteq> []" and "\<forall>b\<in>set w. bar_low b \<le> bar_high b"
  shows "Min (set (map bar_low w)) \<le> Max (set (map bar_high w))"
proof -
  from assms(1) obtain b where b: "b \<in> set w" by (cases w) auto
  have "Min (set (map bar_low w)) \<le> bar_low b" using b by (intro Min_le) auto
  also have "\<dots> \<le> bar_high b" using assms(2) b by blast
  also have "\<dots> \<le> Max (set (map bar_high w))" using b by (intro Max_ge) auto
  finally show ?thesis .
qed

lemma zone_scan_ordered:
  assumes "\<forall>b\<in>set df. bar_low b \<le> bar_high b"
  shows "zone_scan df window rf bm atr_v starts (dz, sz) = Inr (dz', sz') \<Longrightarrow>
     \<forall>z\<in>set dz. fst z \<le> snd z \<Longrightarrow> \<forall>z\<in>set sz. fst z \<le> snd z \<Longrightarrow>
     (\<forall>z\<in>set dz'. fst z \<le> snd z) \<and> (\<forall>z\<in>set sz'. fst z \<le> snd z)"
proof (induction starts arbitrary: dz sz)
  case Nil
  then show ?case by simp
next
  case (Cons start starts)
  define w where "w = iloc_slice df start (int start + window)"
  from Cons.prems(1) have ne: "w \<noteq> []"
    by (auto simp: w_def Let_def split: if_splits)
  have "\<forall>b\<in>set w. bar_low b \<le> bar_high b"
    using assms set_iloc_slice [of df start "int start + window"] by (auto simp: w_def)
  from window_low_le_high [OF ne this]
  have lh: "Min (set (map bar_low w)) \<le> Max (set (map bar_high w))" .
  from Cons.prems(1) ne consider
      (passed) "zone_scan df window rf bm atr_v starts (dz, sz) = Inr (dz', sz')"
    | (todemand) "zone_scan df window rf bm atr_v starts
         (dz @ [(Min (set (map bar_low w)), Max (set (map bar_high w)))], sz) = Inr (dz', sz')"
    | (tosupply) "zone_scan df window rf bm atr_v starts
         (dz, sz @ [(Min (set (map bar_low w)), Max (set (map bar_high w)))]) = Inr (dz', sz')"
    unfolding zone_scan.simps w_def [symmetric] Let_def
    by (auto split: if_splits)
  then show ?case
  proof cases
    case passed
    from Cons.IH [OF passed Cons.prems(2) Cons.prems(3)] show ?thesis .
  next
    case todemand
    have "\<forall>z\<in>set (dz @ [(Min (set (map bar_low w)), Max (set (map bar_high w)))]). fst z \<le> snd z"
      using Cons.prems(2) lh by auto
    from Cons.IH [OF todemand this Cons.prems(3)] show ?thesis .
  next
    case tosupply
    have "\<forall>z\<in>set (sz @ [(Min (set (map bar_low w)), Max (set (map bar_high w)))]). fst z \<le> snd z"
      using Cons.prems(3) lh by auto
    from Cons.IH [OF tosupply Cons.prems(2) this] show ?thesis .
  qed
qed

lemmas zone_eval = find_zones_def atr_def rolling_mean_def iat_last_def bindE_def upt_rec
    iloc_slice_def ENABLE_ATR_FILTER_def ENABLE_BREAKOUT_FILTER_def merge_zones_def py_slice_from_def

text \<open>
  Claim C9. Whenever \<open>find_zones\<close> returns, every zone (low, high) of its demand list and
  of its supply list has low \<le> high, for every window, factor and cap, on every series
  of OHLC bars (a bar's low is not above its high). A candidate is (min of the lows, max of
  the highs) of a non-empty window, and a union of two such intervals is again one.
\<close>

theorem find_zones_low_le_high:
  assumes "\<forall>b\<in>set (rows df). bar_low b \<le> bar_high b"
    and "find_zones df window range_factor breakout_mult max_zones = Inr (demand, supply)"
  shows "\<forall>(low, high) \<in> set demand \<union> set supply. low \<le> high"
proof -
  from assms(2) obtain atr_v d s where
    scan: "zone_scan (rows df) window range_factor breakout_mult atr_v
       [0..<nat (int (length (rows df)) - window)] ([], []) = Inr (d, s)"
    and dem: "demand = merge_zones d max_zones" and sup: "supply = merge_zones s max_zones"
    by (auto simp: find_zones_def bindE_def split: sum.splits prod.splits)
  from zone_scan_ordered [OF assms(1) scan]
  have "\<forall>z\<in>set d. fst z \<le> snd z" and "\<forall>z\<in>set s. fst z \<le> snd z" by auto
  then have "\<forall>z\<in>set demand. fst z \<le> snd z" and "\<forall>z\<in>set supply. fst z \<le> snd z"
    unfolding dem sup by (auto dest: merge_zones_ordered)
  then show ?thesis by auto
qed

theorem find_zones_low_le_high_witness:
  "find_zones \<lparr>rows = [
     \<lparr>bar_open = 0.5, bar_high = 1, bar_low = 0, bar_close = 0.5\<rparr>,
     \<lparr>bar_open = 2.5, bar_high = 3, bar_low = 2, bar_close = 2.5\<rparr>,
     \<lparr>bar_open = 1, bar_high = 2.5, bar_low = 0.5, bar_close = 2\<rparr>,
     \<lparr>bar_open = 2, bar_high = 2.5, bar_low = 1.5, bar_close = 2\<rparr>], atr_14 = None\<rparr> 2 1.0 0.1 3
     = Inr ([(0, 3)], [(1 / 2, 3)]) \<and> (0::real) \<le> 3 \<and> (1 / 2 :: real) \<le> 3"
proof -
  let ?df = "\<lparr>rows = [
     \<lparr>bar_open = 0.5, bar_high = 1, bar_low = 0, bar_close = 0.5\<rparr>,
     \<lparr>bar_open = 2.5, bar_high = 3, bar_low = 2, bar_close = 2.5\<rparr>,
     \<lparr>bar_open = 1, bar_high = 2.5, bar_low = 0.5, bar_close = 2\<rparr>,
     \<lparr>bar_open = 2, bar_high = 2.5, bar_low = 1.5, bar_close = 2\<rparr>], atr_14 = None\<rparr>"
  have wf: "\<forall>b\<in>set (rows ?df). bar_low b \<le> bar_high b" by simp
  have run: "find_zones ?df 2 1.0 0.1 3 = Inr ([(0, 3)], [(1 / 2, 3)])"
    by (simp add: zone_eval)
  from find_zones_low_le_high [OF wf run] run show ?thesis by simp
qed


section \<open>Zones that still overlap after merging\<close>

text \<open>
  Claim C3 (the code departs from it). The candidates (0, 1), (2, 3), (1/2, 5/2) arrive in
  this order; the third overlaps both zones already kept, is united with the first one only
  (the scan stops at the first hit), and the result (0, 5/2), (2, 3) is returned with its
  two zones overlapping. \<open>find_zones\<close> produces exactly these supply candidates from four
  bars with \<open>window = 1\<close>.
\<close>

theorem merge_zones_leaves_overlap:
  "merge_zones [(0, 1), (2, 3), (1 / 2, 5 / 2)] 3 = [(0, 5 / 2), (2, 3)] \<and>
   overlaps (0, 5 / 2) (2, 3) \<and>
   find_zones \<lparr>rows = [
     \<lparr>bar_open = 0.5, bar_high = 1, bar_low = 0, bar_close = 0.5\<rparr>,
     \<lparr>bar_open = 2.5, bar_high = 3, bar_low = 2, bar_close = 2.5\<rparr>,
     \<lparr>bar_open = 1, bar_high = 2.5, bar_low = 0.5, bar_close = 2\<rparr>,
     \<lparr>bar_open = 2, bar_high = 2.5, bar_low = 1.5, bar_close = 2\<rparr>], atr_14 = None\<rparr> 1 1.0 0.1 3
     = Inr ([], [(0, 5 / 2), (2, 3)])"
  by (simp add: zone_eval overlaps_def)

text \<open>
  Claim C2 (the code departs from it). Merging the list that \<open>merge_zones\<close> returned for
  (0, 1), (2, 3), (1/2, 5/2) once more, with the same cap 3, unites its two overlapping
  zones into (0, 3): the second pass does not give back the list it was given.
\<close>

theorem merge_zones_not_idempotent:
  "merge_zones (merge_zones [(0, 1), (2, 3), (1 / 2, 5 / 2)] 3) 3 = [(0, 3)] \<and>
   merge_zones (merge_zones [(0, 1), (2, 3), (1 / 2, 5 / 2)] 3) 3
     \<noteq> merge_zones [(0, 1), (2, 3), (1 / 2, 5 / 2)] 3"
  by (simp add: merge_zones_def py_slice_from_def)


section \<open>Levels found outside the lookback horizon\<close>

text \<open>
  Claim C4 (the code departs from it). The scan runs over the row indices from \<open>window\<close>
  up to \<open>min (len - window) lookback\<close>, which are the oldest \<open>lookback\<close> rows of a series
  longer than that, not the most recent ones. On eight bars with \<open>window = 1\<close> and
  \<open>lookback = 3\<close> the support returned is the low 1 of row 1, which is the low of none of
  the last three rows; the swing low 4 of row 6, inside the last three rows, is not found.
\<close>

theorem find_nearest_levels_scans_oldest:
  "find_nearest_levels [
     \<lparr>bar_open = 5.5, bar_high = 6, bar_low = 5, bar_close = 5.5\<rparr>,
     \<lparr>bar_open = 5.5, bar_high = 6, bar_low = 1, bar_close = 5.5\<rparr>,
     \<lparr>bar_open = 5.5, bar_high = 6, bar_low = 5, bar_close = 5.5\<rparr>,
     \<lparr>bar_open = 5.5, bar_high = 6, bar_low = 5, bar_close = 5.5\<rparr>,
     \<lparr>bar_open = 5.5, bar_high = 6, bar_low = 5, bar_close = 5.5\<rparr>,
     \<lparr>bar_open = 5.5, bar_high = 6, bar_low = 5, bar_close = 5.5\<rparr>,
     \<lparr>bar_open = 5.5, bar_high = 6, bar_low = 4, bar_close = 5.5\<rparr>,
     \<lparr>bar_open = 5.5, bar_high = 6, bar_low = 5, bar_close = 5.5\<rparr>] 1 3 3 = Inr ([1], []) \<and>
   map bar_low (tail [
     \<lparr>bar_open = 5.5, bar_high = 6, bar_low = 5, bar_close = 5.5\<rparr>,
     \<lparr>bar_open = 5.5, bar_high = 6, bar_low = 1, bar_close = 5.5\<rparr>,
     \<lparr>bar_open = 5.5, bar_high = 6, bar_low = 5, bar_close = 5.5\<rparr>,
     \<lparr>bar_open = 5.5, bar_high = 6, bar_low = 5, bar_close = 5.5\<rparr>,
     \<lparr>bar_open = 5.5, bar_high = 6, bar_low = 5, bar_close = 5.5\<rparr>,
     \<lparr>bar_open = 5.5, bar_high = 6, bar_low = 5, bar_close = 5.5\<rparr>,
     \<lparr>bar_open = 5.5, bar_high = 6, bar_low = 4, bar_close = 5.5\<rparr>,
     \<lparr>bar_open = 5.5, bar_high = 6, bar_low = 5, bar_close = 5.5\<rparr>] 3) = [5, 4, 5]"
  by (simp add: find_nearest_levels_def iloc_neg_def bindE_def upto.simps slice_def py_slice_to_def
      tail_def)

section \<open>The direction vote and the iteration order of the set\<close>

lemma max_by_first_max:
  "find (\<lambda>x. \<forall>y\<in>set (best # xs). key y \<le> key x) (best # xs) = Some (max_by key best xs)"
proof (induction xs arbitrary: best)
  case Nil
  show ?case by simp
next
  case (Cons x xs)
  define P where "P = (\<lambda>z. \<forall>y\<in>set (best # x # xs). key y \<le> key z)"
  show ?case
  proof (cases "key x > key best")
    case True
    have eq: "P = (\<lambda>z. \<forall>y\<in>set (x # xs). key y \<le> key z)"
      unfolding P_def using True by (intro ext) auto
    have "\<not> P best" unfolding P_def using True by auto
    then have "find P (best # x # xs) = find P (x # xs)" by simp
    also have "\<dots> = Some (max_by key x xs)" unfolding eq by (rule Cons.IH)
    finally show ?thesis using True unfolding P_def by simp
  next
    case False
    have eq: "P = (\<lambda>z. \<forall>y\<in>set (best # xs). key y \<le> key z)"
      unfolding P_def using False by (intro ext) auto
    have px: "P x \<Longrightarrow> P best" unfolding P_def using False by auto
    have "find P (best # x # xs) = find P (best # xs)"
      using px by auto
    also have "\<dots> = Some (max_by key best xs)" unfolding eq by (rule Cons.IH)
    finally show ?thesis using False unfolding P_def by simp
  qed
qed

lemma py_max_first_max:
  "py_max key xs = find (\<lambda>x. \<forall>y\<in>set xs. key y \<le> key x) xs"
proof (cases xs)
  case Nil
  then show ?thesis by (simp add: py_max_def)
next
  case (Cons x rest)
  then show ?thesis using max_by_first_max [of x rest key] by (simp add: py_max_def del: find.simps set_simps)
qed

lemma direction_vote_first_in_set_order:
  assumes "set_order set_iter (map the (filter truthy [momentum_dir, bollinger_dir, rsi_dir]))"
  shows
    "direction_vote set_iter momentum_dir bollinger_dir rsi_dir =
       (let directions = map the (filter truthy [momentum_dir, bollinger_dir, rsi_dir])
        in find (\<lambda>d. \<forall>d'\<in>set directions. count_list directions d' \<le> count_list directions d)
             (set_iter directions))"
proof -
  define ds where "ds = map the (filter truthy [momentum_dir, bollinger_dir, rsi_dir])"
  from assms have so: "set (set_iter ds) = set ds" by (simp add: set_order_def ds_def)
  show ?thesis
  proof (cases "ds = []")
    case True
    with so have "set_iter ds = []" by simp
    with True show ?thesis
      unfolding direction_vote_def Let_def ds_def [symmetric] by simp
  next
    case False
    then show ?thesis
      unfolding direction_vote_def Let_def ds_def [symmetric] py_max_first_max so by simp
  qed
qed


lemma find_unique:
  "d \<in> set xs \<Longrightarrow> P d \<Longrightarrow> \<forall>x\<in>set xs. P x \<longrightarrow> x = d \<Longrightarrow> find P xs = Some d"
proof (induction xs)
  case Nil
  then show ?case by simp
next
  case (Cons a xs)
  show ?case
  proof (cases "P a")
    case True
    with Cons.prems(3) have "a = d" by simp
    with True show ?thesis by simp
  next
    case False
    with Cons.prems have "d \<in> set xs" by auto
    moreover from Cons.prems(3) have "\<forall>x\<in>set xs. P x \<longrightarrow> x = d" by simp
    ultimately have "find P xs = Some d" using Cons.prems(2) by (intro Cons.IH)
    with False show ?thesis by simp
  qed
qed

text \<open>
  Claim C5, as amended. Whatever order the set of non-null sub-signals is iterated in, the
  vote is the first direction in that order whose count among the sub-signals is largest.
  On a tie the vote is therefore the first element the set yields, and with a strict
  majority it is the majority direction. The vote is a function of the three sub-signals
  and of that iteration order, not of the three sub-signals alone.
\<close>

theorem direction_vote_tie_and_majority:
  assumes "set_order set_iter (map the (filter truthy [momentum_dir, bollinger_dir, rsi_dir]))"
  shows
    "let directions = map the (filter truthy [momentum_dir, bollinger_dir, rsi_dir]);
         vote = direction_vote set_iter momentum_dir bollinger_dir rsi_dir
     in vote = find (\<lambda>d. \<forall>d'\<in>set directions. count_list directions d' \<le> count_list directions d)
                 (set_iter directions) \<and>
        (directions \<noteq> [] \<and>
         (\<forall>d\<in>set directions. \<forall>d'\<in>set directions. count_list directions d = count_list directions d')
           \<longrightarrow> vote = Some (hd (set_iter directions))) \<and>
        (\<forall>d\<in>set directions.
           (\<forall>d'\<in>set directions. d' \<noteq> d \<longrightarrow> count_list directions d' < count_list directions d)
           \<longrightarrow> vote = Some d)"
proof -
  define ds where "ds = map the (filter truthy [momentum_dir, bollinger_dir, rsi_dir])"
  define vote where "vote = direction_vote set_iter momentum_dir bollinger_dir rsi_dir"
  define P where "P = (\<lambda>d. \<forall>d'\<in>set ds. count_list ds d' \<le> count_list ds d)"
  from assms have so: "set (set_iter ds) = set ds" by (simp add: set_order_def ds_def)
  have main: "vote = find P (set_iter ds)"
    using direction_vote_first_in_set_order [OF assms]
    unfolding vote_def P_def ds_def Let_def .
  have tie: "vote = Some (hd (set_iter ds))"
    if ne: "ds \<noteq> []" and eq: "\<forall>d\<in>set ds. \<forall>d'\<in>set ds. count_list ds d = count_list ds d'"
  proof -
    from ne so obtain x rest where xs: "set_iter ds = x # rest" by (cases "set_iter ds") auto
    with so have x: "x \<in> set ds" by auto
    have "P x" unfolding P_def
    proof
      fix d' assume "d' \<in> set ds"
      with eq x have "count_list ds d' = count_list ds x" by blast
      then show "count_list ds d' \<le> count_list ds x" by simp
    qed
    with main xs show ?thesis by simp
  qed
  have maj: "vote = Some d"
    if d: "d \<in> set ds" and gt: "\<forall>d'\<in>set ds. d' \<noteq> d \<longrightarrow> count_list ds d' < count_list ds d" for d
  proof -
    have pd: "P d" unfolding P_def
    proof
      fix d' assume "d' \<in> set ds"
      with gt show "count_list ds d' \<le> count_list ds d" by (cases "d' = d") auto
    qed
    have uniq: "\<forall>x\<in>set (set_iter ds). P x \<longrightarrow> x = d"
    proof (intro ballI impI)
      fix x assume x: "x \<in> set (set_iter ds)" and px: "P x"
      show "x = d"
      proof (rule ccontr)
        assume "x \<noteq> d"
        moreover from x so have "x \<in> set ds" by simp
        ultimately have "count_list ds x < count_list ds d" using gt by blast
        moreover from px d have "count_list ds d \<le> count_list ds x" by (simp add: P_def)
        ultimately show False by simp
      qed
    qed
    from d so have "d \<in> set (set_iter ds)" by simp
    from find_unique [OF this pd uniq] main show ?thesis by simp
  qed
  have "vote = find P (set_iter ds) \<and>
        (ds \<noteq> [] \<and> (\<forall>d\<in>set ds. \<forall>d'\<in>set ds. count_list ds d = count_list ds d')
           \<longrightarrow> vote = Some (hd (set_iter ds))) \<and>
        (\<forall>d\<in>set ds. (\<forall>d'\<in>set ds. d' \<noteq> d \<longrightarrow> count_list ds d' < count_list ds d)
           \<longrightarrow> vote = Some d)"
  proof (intro conjI impI ballI)
    show "vote = find P (set_iter ds)" by (rule main)
  next
    assume "ds \<noteq> [] \<and> (\<forall>d\<in>set ds. \<forall>d'\<in>set ds. count_list ds d = count_list ds d')"
    then show "vote = Some (hd (set_iter ds))" using tie by blast
  next
    fix d assume "d \<in> set ds"
      and "\<forall>d'\<in>set ds. d' \<noteq> d \<longrightarrow> count_list ds d' < count_list ds d"
    then show "vote = Some d" by (rule maj)
  qed
  then show ?thesis
    unfolding Let_def ds_def [symmetric] vote_def [symmetric] P_def .
qed

theorem direction_vote_witness:
  "set_order remdups [''BUY'', ''SELL''] \<and>
   direction_vote remdups (Some ''BUY'') (Some ''SELL'') None = Some ''BUY'' \<and>
   direction_vote remdups None (Some ''SELL'') (Some ''BUY'') = Some ''SELL'' \<and>
   direction_vote remdups (Some ''BUY'') (Some ''SELL'') (Some ''SELL'') = Some ''SELL''"
proof -
  have o1: "set_order remdups (map the (filter truthy [Some ''BUY'', Some ''SELL'', None]))"
    by (simp add: set_order_def truthy_def)
  have o2: "set_order remdups (map the (filter truthy [None, Some ''SELL'', Some ''BUY'']))"
    by (simp add: set_order_def truthy_def)
  have o3: "set_order remdups (map the (filter truthy [Some ''BUY'', Some ''SELL'', Some ''SELL'']))"
    by (simp add: set_order_def truthy_def)
  show ?thesis
    using direction_vote_tie_and_majority [OF o1] direction_vote_tie_and_majority [OF o2]
      direction_vote_tie_and_majority [OF o3]
    by (simp add: Let_def truthy_def set_order_def)
qed

text \<open>
  The claim as stated fails: with momentum BUY, band SELL and no oscillator signal the votes
  tie; when the set yields SELL before BUY the vote is SELL, although BUY is first in the
  evaluation sequence, and when the set yields BUY first the vote is BUY.
\<close>

theorem direction_vote_not_first_seen:
  "set_order (\<lambda>xs. rev (remdups xs)) [''BUY'', ''SELL''] \<and>
   direction_vote (\<lambda>xs. rev (remdups xs)) (Some ''BUY'') (Some ''SELL'') None = Some ''SELL'' \<and>
   direction_vote remdups (Some ''BUY'') (Some ''SELL'') None = Some ''BUY''"
  by (auto simp add: set_order_def direction_vote_def truthy_def py_max_def)



section \<open>Selection of the chart pattern\<close>

lemma pattern_scan_find:
  "pattern_scan tbl df expected fallback =
     (case find (\<lambda>(func, direction, name). func df \<and> truthy expected \<and> direction = expected) tbl of
        Some (func, direction, name) \<Rightarrow> Some (direction, name)
      | None \<Rightarrow>
          (case fallback of
             Some m \<Rightarrow> Some m
           | None \<Rightarrow> map_option (\<lambda>(func, direction, name). (direction, name))
                       (find (\<lambda>(func, direction, name). func df) tbl)))"
proof (induction tbl arbitrary: fallback)
  case Nil
  show ?case by (cases fallback) simp_all
next
  case (Cons entry tbl)
  obtain func direction name where e: "entry = (func, direction, name)" by (cases entry)
  show ?case
  proof (cases "func df")
    case False
    then show ?thesis unfolding e using Cons.IH [of fallback]
      by (simp split: option.splits)
  next
    case True
    show ?thesis
    proof (cases "truthy expected \<and> direction = expected")
      case hit: True
      with True show ?thesis unfolding e by simp
    next
      case miss: False
      show ?thesis
      proof (cases fallback)
        case None
        with True miss show ?thesis unfolding e using Cons.IH [of "Some (direction, name)"]
          by (auto split: option.splits)
      next
        case (Some m)
        with True miss show ?thesis unfolding e using Cons.IH [of "Some m"]
          by (auto split: option.splits)
      qed
    qed
  qed
qed

lemma detect_pattern_selection:
  "detect_pattern D df expected_direction =
     (case find (\<lambda>(func, direction, name).
                   func df \<and> truthy expected_direction \<and> direction = expected_direction)
             (patterns D) of
        Some (func, direction, name) \<Rightarrow> Some (direction, name)
      | None \<Rightarrow> map_option (\<lambda>(func, direction, name). (direction, name))
                  (find (\<lambda>(func, direction, name). func df) (patterns D)))"
  by (simp add: detect_pattern_def pattern_scan_find split: option.splits)

text \<open>
  Claim C8. \<open>detect_pattern\<close> returns at most one match. When an expected direction is given
  (a non-empty string) and some detector of that direction matches, the result is the first
  such detector in the priority order, whatever matched before it; otherwise the result is
  the first matching detector of the priority order; when no detector matches it is none.
\<close>

theorem detect_pattern_prefers_expected:
  "detect_pattern D df expected_direction =
     (case find (\<lambda>(func, direction, name).
                   func df \<and> truthy expected_direction \<and> direction = expected_direction)
             (patterns D) of
        Some (func, direction, name) \<Rightarrow> Some (direction, name)
      | None \<Rightarrow> map_option (\<lambda>(func, direction, name). (direction, name))
                  (find (\<lambda>(func, direction, name). func df) (patterns D))) \<and>
   (truthy expected_direction \<and>
    (\<exists>(func, direction, name) \<in> set (patterns D). func df \<and> direction = expected_direction)
      \<longrightarrow> (\<exists>name. detect_pattern D df expected_direction = Some (expected_direction, name))) \<and>
   ((\<forall>(func, direction, name) \<in> set (patterns D). \<not> func df)
      \<longrightarrow> detect_pattern D df expected_direction = None)"
proof (intro conjI impI)
  show sel: "detect_pattern D df expected_direction =
     (case find (\<lambda>(func, direction, name).
                   func df \<and> truthy expected_direction \<and> direction = expected_direction)
             (patterns D) of
        Some (func, direction, name) \<Rightarrow> Some (direction, name)
      | None \<Rightarrow> map_option (\<lambda>(func, direction, name). (direction, name))
                  (find (\<lambda>(func, direction, name). func df) (patterns D)))"
    by (rule detect_pattern_selection)
  {
    assume a: "truthy expected_direction \<and>
      (\<exists>(func, direction, name) \<in> set (patterns D). func df \<and> direction = expected_direction)"
    then have "\<exists>x\<in>set (patterns D). (\<lambda>(func, direction, name).
         func df \<and> truthy expected_direction \<and> direction = expected_direction) x"
      by auto
    then obtain x where x: "find (\<lambda>(func, direction, name).
         func df \<and> truthy expected_direction \<and> direction = expected_direction) (patterns D) = Some x"
      by (cases "find (\<lambda>(func, direction, name).
         func df \<and> truthy expected_direction \<and> direction = expected_direction) (patterns D)")
        (auto simp: find_None_iff)
    obtain func direction name where xe: "x = (func, direction, name)" by (cases x)
    from x have "direction = expected_direction"
      unfolding xe by (auto simp: find_Some_iff)
    with x show "\<exists>name. detect_pattern D df expected_direction = Some (expected_direction, name)"
      unfolding sel xe by simp
  }
  {
    assume n: "\<forall>(func, direction, name) \<in> set (patterns D). \<not> func df"
    then have "find (\<lambda>(func, direction, name). func df) (patterns D) = None"
      by (auto simp: find_None_iff)
    moreover from n have "find (\<lambda>(func, direction, name).
         func df \<and> truthy expected_direction \<and> direction = expected_direction) (patterns D) = None"
      by (auto simp: find_None_iff)
    ultimately show "detect_pattern D df expected_direction = None"
      unfolding sel by simp
  }
qed

theorem detect_pattern_prefers_expected_witness:
  "detect_pattern (no_detector\<lparr>detect_double_top := (\<lambda>df. True),
       detect_ascending_triangle := (\<lambda>df. True)\<rparr>) [] (Some ''BUY'')
     = Some (Some ''BUY'', ''Ascending Triangle'') \<and>
   detect_pattern (no_detector\<lparr>detect_double_top := (\<lambda>df. True),
       detect_ascending_triangle := (\<lambda>df. True)\<rparr>) [] None
     = Some (Some ''SELL'', ''Double Top'') \<and>
   detect_pattern no_detector [] (Some ''BUY'') = None"
  using detect_pattern_prefers_expected [of "no_detector\<lparr>detect_double_top := (\<lambda>df. True),
       detect_ascending_triangle := (\<lambda>df. True)\<rparr>" "[]" "Some ''BUY''"]
    detect_pattern_prefers_expected [of "no_detector\<lparr>detect_double_top := (\<lambda>df. True),
       detect_ascending_triangle := (\<lambda>df. True)\<rparr>" "[]" None]
    detect_pattern_prefers_expected [of no_detector "[]" "Some ''BUY''"]
  by (simp add: patterns_def no_detector_def truthy_def)

section \<open>The accumulated score and its weights\<close>

lemma add_weight_steps:
  "\<exists>acc'. add_weight agrees ''trend'' reason acc = Inr acc' \<and> fst acc \<le> fst acc' \<and> fst acc' \<le> fst acc + 1 / 5"
  "\<exists>acc'. add_weight agrees ''momentum'' reason acc = Inr acc' \<and> fst acc \<le> fst acc' \<and> fst acc' \<le> fst acc + 1 / 5"
  "\<exists>acc'. add_weight agrees ''rsi'' reason acc = Inr acc' \<and> fst acc \<le> fst acc' \<and> fst acc' \<le> fst acc + 1 / 10"
  "\<exists>acc'. add_weight agrees ''bollinger'' reason acc = Inr acc' \<and> fst acc \<le> fst acc' \<and> fst acc' \<le> fst acc + 1 / 10"
  "\<exists>acc'. add_weight agrees ''support_resistance'' reason acc = Inr acc' \<and> fst acc \<le> fst acc' \<and> fst acc' \<le> fst acc + 3 / 20"
  "\<exists>acc'. add_weight agrees ''trendline'' reason acc = Inr acc' \<and> fst acc \<le> fst acc' \<and> fst acc' \<le> fst acc + 1 / 10"
  "\<exists>acc'. add_weight agrees ''candle'' reason acc = Inr acc' \<and> fst acc \<le> fst acc' \<and> fst acc' \<le> fst acc + 3 / 20"
  "\<exists>acc'. add_weight agrees ''chart'' reason acc = Inr acc' \<and> fst acc \<le> fst acc' \<and> fst acc' \<le> fst acc + 1 / 10"
  by (cases acc; simp add: add_weight_def weights_def weight_table_def)+

lemma is_respecting_trendline_never_raises:
  "is_respecting_trendline df direction \<noteq> Inl e"
  by (auto simp: is_respecting_trendline_def bindE_def iloc_neg_def Let_def rolling_min_def
      rolling_max_def)

lemma any_pattern_never_raises:
  "\<forall>p\<in>set ps. \<forall>e. p df \<noteq> Inl e \<Longrightarrow> any_pattern ps df \<noteq> Inl e"
proof (induction ps)
  case Nil
  show ?case by simp
next
  case (Cons p ps)
  from Cons.prems obtain r where r: "p df = Inr r" by (cases "p df") auto
  from Cons.prems have "\<forall>p\<in>set ps. \<forall>e. p df \<noteq> Inl e" by simp
  from Cons.IH [OF this] r show ?case by (simp add: bindE_def)
qed

lemma detect_candlestick_pattern_never_raises:
  "detect_candlestick_pattern df direction \<noteq> Inl e"
proof -
  have "\<forall>p\<in>set BUY_PATTERNS. \<forall>e. p df \<noteq> Inl e"
    by (simp add: BUY_PATTERNS_def candle_never_raises)
  from any_pattern_never_raises [OF this] have rb: "any_pattern BUY_PATTERNS df \<noteq> Inl e" .
  have "\<forall>p\<in>set SELL_PATTERNS. \<forall>e. p df \<noteq> Inl e"
    by (simp add: SELL_PATTERNS_def candle_never_raises)
  from any_pattern_never_raises [OF this] have rs: "any_pattern SELL_PATTERNS df \<noteq> Inl e" .
  show ?thesis by (simp add: detect_candlestick_pattern_def rb rs)
qed

lemma detect_candlestick_pattern_empty:
  "detect_candlestick_pattern [] direction = Inr False"
  by (simp add: detect_candlestick_pattern_def BUY_PATTERNS_def SELL_PATTERNS_def candle_defs
      bindE_def)

lemma bindE_Inr: "bindE (Inr x) f = f x"
  by (simp add: bindE_def)

text \<open>
  The accumulation raises nothing; its score is never negative and never above the sum of
  the weight table as the source has it.
\<close>

lemma score_accumulation_range:
  "sum_list (map snd weight_table) = 11 / 10 \<and>
   (\<exists>score reasons.
      score_accumulation D df_m15 direction trend_dir momentum_dir rsi_dir bollinger_dir near_zone
        = Inr (score, reasons) \<and> 0 \<le> score \<and> score \<le> 11 / 10)"
proof
  show "sum_list (map snd weight_table) = 11 / 10" by (simp add: weight_table_def)
next
  define df_candles where "df_candles = tail df_m15 CANDLE_PATTERN_LOOKBACK"
  define c1 where "c1 = (trend_dir = (if direction = ''BUY'' then ''uptrend'' else ''downtrend''))"
  from add_weight_steps(1) [of c1 "''Trend='' @ trend_dir" "(0, [])"]
  obtain a1 where s1: "add_weight c1 ''trend'' (''Trend='' @ trend_dir) (0, []) = Inr a1"
    and l1: "0 \<le> fst a1" and u1: "fst a1 \<le> 1 / 5"
    by auto
  from add_weight_steps(2) [of "momentum_dir = Some direction" "''Momentum='' @ direction" a1]
  obtain a2 where s2: "add_weight (momentum_dir = Some direction)
               ''momentum'' (''Momentum='' @ direction) a1 = Inr a2"
    and l2: "fst a1 \<le> fst a2" and u2: "fst a2 \<le> fst a1 + 1 / 5"
    by blast
  from add_weight_steps(3) [of "rsi_dir = Some direction" "''RSI='' @ direction" a2]
  obtain a3 where s3: "add_weight (rsi_dir = Some direction) ''rsi'' (''RSI='' @ direction) a2 = Inr a3"
    and l3: "fst a2 \<le> fst a3" and u3: "fst a3 \<le> fst a2 + 1 / 10"
    by blast
  from add_weight_steps(4) [of "bollinger_dir = Some direction" "''Bollinger='' @ direction" a3]
  obtain a4 where s4: "add_weight (bollinger_dir = Some direction)
               ''bollinger'' (''Bollinger='' @ direction) a3 = Inr a4"
    and l4: "fst a3 \<le> fst a4" and u4: "fst a4 \<le> fst a3 + 1 / 10"
    by blast
  from add_weight_steps(5) [of near_zone "''Near support/resistance''" a4]
  obtain a5 where s5: "add_weight near_zone ''support_resistance'' ''Near support/resistance'' a4 = Inr a5"
    and l5: "fst a4 \<le> fst a5" and u5: "fst a5 \<le> fst a4 + 3 / 20"
    by blast
  obtain respecting where t: "is_respecting_trendline df_m15 direction = Inr respecting"
    using is_respecting_trendline_never_raises [of df_m15 direction]
    by (cases "is_respecting_trendline df_m15 direction") auto
  from add_weight_steps(6) [of respecting "''Respecting trendline''" a5]
  obtain a6 where s6: "add_weight respecting ''trendline'' ''Respecting trendline'' a5 = Inr a6"
    and l6: "fst a5 \<le> fst a6" and u6: "fst a6 \<le> fst a5 + 1 / 10"
    by blast
  obtain detected where c: "detect_candlestick_pattern (butlast df_candles) direction = Inr detected"
    using detect_candlestick_pattern_never_raises [of "butlast df_candles" direction]
    by (cases "detect_candlestick_pattern (butlast df_candles) direction") auto
  define step7 where "step7 = (if detected then
               bindE (iloc_neg df_candles 1) (\<lambda>last_row.
                 add_weight ((direction = ''BUY'' \<and> bar_close last_row > bar_open last_row) \<or>
                             (direction = ''SELL'' \<and> bar_close last_row < bar_open last_row))
                   ''candle'' ''Candle pattern (confirmed)'' a6)
             else Inr a6)"
  have "\<exists>a7. step7 = Inr a7 \<and> fst a6 \<le> fst a7 \<and> fst a7 \<le> fst a6 + 3 / 20"
  proof (cases detected)
    case False
    then show ?thesis by (simp add: step7_def)
  next
    case True
    have "butlast df_candles \<noteq> []"
    proof
      assume "butlast df_candles = []"
      with c True show False by (simp add: detect_candlestick_pattern_empty)
    qed
    then have "df_candles \<noteq> []" by auto
    then have lr: "iloc_neg df_candles 1 = Inr (df_candles ! (length df_candles - 1))"
      by (simp add: iloc_neg_def Suc_le_eq)
    define last_row where "last_row = df_candles ! (length df_candles - 1)"
    from add_weight_steps(7) [of "(direction = ''BUY'' \<and> bar_close last_row > bar_open last_row) \<or>
                             (direction = ''SELL'' \<and> bar_close last_row < bar_open last_row)"
        "''Candle pattern (confirmed)''" a6]
    show ?thesis unfolding step7_def using True lr
      by (simp add: bindE_def last_row_def)
  qed
  then obtain a7 where s7: "step7 = Inr a7"
    and l7: "fst a6 \<le> fst a7" and u7: "fst a7 \<le> fst a6 + 3 / 20" by blast
  define step8 where "step8 =
      (case detect_pattern D (tail df_m15 CHART_PATTERN_LOOKBACK) (Some direction) of
         Some (d, name) \<Rightarrow> add_weight (d = Some direction) ''chart'' (''Chart='' @ name) a7
       | None \<Rightarrow> Inr a7)"
  have "\<exists>a8. step8 = Inr a8 \<and> fst a7 \<le> fst a8 \<and> fst a8 \<le> fst a7 + 1 / 10"
  proof (cases "detect_pattern D (tail df_m15 CHART_PATTERN_LOOKBACK) (Some direction)")
    case None
    then show ?thesis by (simp add: step8_def)
  next
    case (Some m)
    obtain d name where m: "m = (d, name)" by (cases m)
    from add_weight_steps(8) [of "d = Some direction" "''Chart='' @ name" a7]
    show ?thesis unfolding step8_def Some m by simp
  qed
  then obtain a8 where s8: "step8 = Inr a8"
    and l8: "fst a7 \<le> fst a8" and u8: "fst a8 \<le> fst a7 + 1 / 10" by blast
  have run: "score_accumulation D df_m15 direction trend_dir momentum_dir rsi_dir bollinger_dir near_zone
      = Inr a8"
    unfolding score_accumulation_def Let_def df_candles_def [symmetric] c1_def [symmetric]
    by (simp only: s1 s2 s3 s4 s5 s6 t c bindE_Inr s7 [unfolded step7_def] s8 [unfolded step8_def])
  have "0 \<le> fst a8" using l1 l2 l3 l4 l5 l6 l7 l8 by linarith
  moreover have "fst a8 \<le> 11 / 10" using u1 u2 u3 u4 u5 u6 u7 u8 by linarith
  ultimately have "score_accumulation D df_m15 direction trend_dir momentum_dir rsi_dir
      bollinger_dir near_zone = Inr (fst a8, snd a8) \<and> 0 \<le> fst a8 \<and> fst a8 \<le> 11 / 10"
    using run by simp
  then show "\<exists>score reasons.
      score_accumulation D df_m15 direction trend_dir momentum_dir rsi_dir bollinger_dir near_zone
        = Inr (score, reasons) \<and> 0 \<le> score \<and> score \<le> 11 / 10"
    by blast
qed


section \<open>The reversal quorum\<close>

lemma swing_scan_never_raises:
  "\<forall>i\<in>set is. 0 \<le> i \<and> i < int (length df) \<Longrightarrow> swing_scan df window is acc \<noteq> Inl e"
proof (induction "is" arbitrary: acc)
  case Nil
  show ?case by (cases acc) simp
next
  case (Cons i "is")
  obtain supports resistances where acc: "acc = (supports, resistances)" by (cases acc)
  from Cons.prems have i: "\<not> (i < 0 \<or> i \<ge> int (length df))" by simp
  from Cons.prems have rest: "\<forall>i\<in>set is. 0 \<le> i \<and> i < int (length df)" by simp
  show ?case unfolding acc using i Cons.IH [OF rest]
    by (simp add: Let_def)
qed

lemma find_nearest_levels_never_raises:
  assumes "df \<noteq> []" and "0 \<le> window"
  shows "find_nearest_levels df window lookback max_levels \<noteq> Inl e"
proof -
  from assms(1) have lr: "iloc_neg df 1 = Inr (df ! (length df - 1))"
    by (simp add: iloc_neg_def Suc_le_eq)
  define max_index where "max_index = min (max (int (length df) - window) 0) lookback"
  have "\<forall>i\<in>set [window..max_index - 1]. 0 \<le> i \<and> i < int (length df)"
    using assms(2) by (auto simp: max_index_def)
  from swing_scan_never_raises [OF this]
  have "swing_scan df window [window..max_index - 1] ([], []) \<noteq> Inl e" .
  then show ?thesis
    unfolding find_nearest_levels_def lr Let_def max_index_def [symmetric]
    by (auto simp: bindE_def split: sum.splits)
qed

lemma timeframe_count: "label \<in> set TIMEFRAMES \<Longrightarrow> \<exists>n. TF_CANDLE_COUNTS label = Some n \<and> 10 \<le> n"
  by (auto simp: TIMEFRAMES_def TF_CANDLE_COUNTS_def)

lemma reversal_patterns_never_raise:
  "any_pattern reversal_patterns df \<noteq> Inl e"
proof -
  have "\<forall>p\<in>set reversal_patterns. \<forall>e. p df \<noteq> Inl e"
    by (simp add: reversal_patterns_def candle_never_raises)
  then show ?thesis by (rule any_pattern_never_raises)
qed

lemma timeframe_confirms_never_raises:
  assumes "label \<in> set TIMEFRAMES"
  shows "timeframe_confirms fetch symbol direction label \<noteq> Inl e"
proof -
  from timeframe_count [OF assms] obtain required where
    req: "TF_CANDLE_COUNTS label = Some required" and big: "10 \<le> required" by blast
  show ?thesis
  proof (cases "fetch symbol label required")
    case None
    then show ?thesis by (simp add: timeframe_confirms_def req)
  next
    case (Some df_full)
    show ?thesis
    proof (cases "length df_full < required")
      case True
      with Some show ?thesis by (simp add: timeframe_confirms_def req)
    next
      case False
      with big have len: "10 \<le> length df_full" by simp
      then have ne: "df_full \<noteq> []" by auto
      from len have r1: "iloc_neg df_full 1 = Inr (df_full ! (length df_full - 1))"
        and r5: "iloc_neg df_full 5 = Inr (df_full ! (length df_full - 5))"
        and r10: "iloc_neg df_full 10 = Inr (df_full ! (length df_full - 10))"
        by (simp_all add: iloc_neg_def)
      have lv: "find_nearest_levels df_full 20 500 3 \<noteq> Inl e"
        by (rule find_nearest_levels_never_raises [OF ne]) simp
      have pm: "any_pattern reversal_patterns (tail df_full required) \<noteq> Inl e"
        by (rule reversal_patterns_never_raise)
      show ?thesis
        unfolding timeframe_confirms_def Let_def req Some option.case r1 r5 r10 bindE_Inr
        using False lv pm
        by (auto simp: bindE_def split: sum.splits)
    qed
  qed
qed

lemma reversal_scan_filter:
  "\<forall>label\<in>set labels. \<forall>e. timeframe_confirms fetch symbol direction label \<noteq> Inl e \<Longrightarrow>
   reversal_scan fetch symbol direction labels confirmed =
     Inr (confirmed @ filter (\<lambda>label. timeframe_confirms fetch symbol direction label = Inr True) labels)"
proof (induction labels arbitrary: confirmed)
  case Nil
  show ?case by simp
next
  case (Cons label labels)
  from Cons.prems obtain b where b: "timeframe_confirms fetch symbol direction label = Inr b"
    by (cases "timeframe_confirms fetch symbol direction label") auto
  from Cons.prems have "\<forall>label\<in>set labels. \<forall>e. timeframe_confirms fetch symbol direction label \<noteq> Inl e"
    by simp
  note IH = Cons.IH [OF this]
  show ?case by (cases b) (simp_all add: b bindE_def IH)
qed

lemma list_all_replicate: "list_all P (replicate n x) = (n = 0 \<or> P x)"
  by (induction n) auto

lemma swing_scan_flat:
  "\<forall>i\<in>set is. 20 \<le> i \<and> i < int n \<Longrightarrow>
   swing_scan (replicate n b) 20 is (supports, resistances) = Inr (supports, resistances)"
proof (induction "is")
  case Nil
  show ?case by simp
next
  case (Cons i "is")
  from Cons.prems have i: "20 \<le> i" "i < int n" by simp_all
  from Cons.prems have rest: "\<forall>i\<in>set is. 20 \<le> i \<and> i < int n" by simp
  have d: "nat i - nat (i - 20) = 20" using i by linarith
  have r: "20 \<le> n - nat (i - 20)" using i by linarith
  have before: "slice (replicate n v) (nat (i - 20)) (nat i) = replicate 20 v" for v :: real
    using r by (simp add: slice_def d min_def)
  show ?case
    using i Cons.IH [OF rest]
    by (simp add: Let_def before list_all_replicate)
qed

lemma find_nearest_levels_flat:
  "0 < n \<Longrightarrow> find_nearest_levels (replicate n b) 20 lookback max_levels = Inr ([], [])"
proof -
  assume n: "0 < n"
  define max_index where "max_index = min (max (int (length (replicate n b)) - 20) 0) lookback"
  have "\<forall>i\<in>set [20..max_index - 1]. 20 \<le> i \<and> i < int n"
    by (auto simp: max_index_def)
  from swing_scan_flat [OF this]
  have "swing_scan (replicate n b) 20 [20..max_index - 1] ([], []) = Inr ([], [])" .
  with n show ?thesis
    unfolding find_nearest_levels_def Let_def max_index_def [symmetric]
    by (simp add: iloc_neg_def bindE_def py_slice_to_def Suc_le_eq)
qed

lemma flat_hammers_confirm:
  "1500 \<le> required \<Longrightarrow> required \<le> 2000 \<Longrightarrow> TF_CANDLE_COUNTS label = Some required \<Longrightarrow>
   fetch symbol label required = Some (replicate 2000 hammer_bar) \<Longrightarrow>
   timeframe_confirms fetch symbol direction label = Inr True"
  by (simp add: timeframe_confirms_def Let_def iloc_neg_def tail_def hammer_bar_def
      reversal_patterns_def candle_defs bindE_def find_nearest_levels_flat
      is_near_support_or_resistance_def sum_list_replicate)

lemma no_candles_reject:
  "fetch symbol label (case TF_CANDLE_COUNTS label of Some n \<Rightarrow> n | None \<Rightarrow> 300) = None \<Longrightarrow>
   timeframe_confirms fetch symbol direction label = Inr False"
  by (simp add: timeframe_confirms_def Let_def)

text \<open>
  Claim C6. \<open>detect_reversal_signal\<close> raises nothing and returns true exactly when at least
  4 of the 8 timeframes confirm, each judged on its own candles; so 4 confirming timeframes
  with 4 rejecting ones give true, and 3 confirming with 5 rejecting give false.
\<close>

theorem reversal_quorum:
  "detect_reversal_signal fetch symbol direction =
     Inr (4 \<le> length (filter (\<lambda>label. timeframe_confirms fetch symbol direction label = Inr True)
                        TIMEFRAMES)) \<and>
   length TIMEFRAMES = 8 \<and>
   (length (filter (\<lambda>label. timeframe_confirms fetch symbol direction label = Inr True) TIMEFRAMES) = 4
      \<longrightarrow> detect_reversal_signal fetch symbol direction = Inr True) \<and>
   (length (filter (\<lambda>label. timeframe_confirms fetch symbol direction label = Inr True) TIMEFRAMES) = 3
      \<longrightarrow> detect_reversal_signal fetch symbol direction = Inr False)"
proof -
  have "\<forall>label\<in>set TIMEFRAMES. \<forall>e. timeframe_confirms fetch symbol direction label \<noteq> Inl e"
    by (simp add: timeframe_confirms_never_raises)
  from reversal_scan_filter [OF this, of "[]"]
  have main: "detect_reversal_signal fetch symbol direction =
     Inr (4 \<le> length (filter (\<lambda>label. timeframe_confirms fetch symbol direction label = Inr True)
                        TIMEFRAMES))"
    by (simp add: detect_reversal_signal_def bindE_def)
  have "length TIMEFRAMES = 8" by (simp add: TIMEFRAMES_def)
  with main show ?thesis by simp
qed

text \<open>
  Four timeframes (H1, H2, H4, D1) that deliver 2000 hammer bars confirm and the four that
  deliver nothing reject: the verdict is true. With H1 silent as well, three confirm and
  five reject: the verdict is false.
\<close>

theorem reversal_quorum_witness:
  "length (filter (\<lambda>label. timeframe_confirms fetch_four ''EURUSD'' ''BUY'' label = Inr True)
      TIMEFRAMES) = 4 \<and>
   detect_reversal_signal fetch_four ''EURUSD'' ''BUY'' = Inr True \<and>
   length (filter (\<lambda>label. timeframe_confirms fetch_three ''EURUSD'' ''BUY'' label = Inr True)
      TIMEFRAMES) = 3 \<and>
   detect_reversal_signal fetch_three ''EURUSD'' ''BUY'' = Inr False"
proof -
  have four: "timeframe_confirms fetch_four ''EURUSD'' ''BUY'' ''M1'' = Inr False"
    "timeframe_confirms fetch_four ''EURUSD'' ''BUY'' ''M5'' = Inr False"
    "timeframe_confirms fetch_four ''EURUSD'' ''BUY'' ''M15'' = Inr False"
    "timeframe_confirms fetch_four ''EURUSD'' ''BUY'' ''M30'' = Inr False"
    "timeframe_confirms fetch_four ''EURUSD'' ''BUY'' ''H1'' = Inr True"
    "timeframe_confirms fetch_four ''EURUSD'' ''BUY'' ''H2'' = Inr True"
    "timeframe_confirms fetch_four ''EURUSD'' ''BUY'' ''H4'' = Inr True"
    "timeframe_confirms fetch_four ''EURUSD'' ''BUY'' ''D1'' = Inr True"
    by (simp_all add: no_candles_reject flat_hammers_confirm [where required = 1500]
        flat_hammers_confirm [where required = 2000] fetch_four_def TF_CANDLE_COUNTS_def)
  have three: "timeframe_confirms fetch_three ''EURUSD'' ''BUY'' ''M1'' = Inr False"
    "timeframe_confirms fetch_three ''EURUSD'' ''BUY'' ''M5'' = Inr False"
    "timeframe_confirms fetch_three ''EURUSD'' ''BUY'' ''M15'' = Inr False"
    "timeframe_confirms fetch_three ''EURUSD'' ''BUY'' ''M30'' = Inr False"
    "timeframe_confirms fetch_three ''EURUSD'' ''BUY'' ''H1'' = Inr False"
    "timeframe_confirms fetch_three ''EURUSD'' ''BUY'' ''H2'' = Inr True"
    "timeframe_confirms fetch_three ''EURUSD'' ''BUY'' ''H4'' = Inr True"
    "timeframe_confirms fetch_three ''EURUSD'' ''BUY'' ''D1'' = Inr True"
    by (simp_all add: no_candles_reject flat_hammers_confirm [where required = 1500]
        flat_hammers_confirm [where required = 2000] fetch_three_def TF_CANDLE_COUNTS_def)
  have c4: "length (filter (\<lambda>label. timeframe_confirms fetch_four ''EURUSD'' ''BUY'' label = Inr True)
      TIMEFRAMES) = 4"
    by (simp add: TIMEFRAMES_def four)
  have c3: "length (filter (\<lambda>label. timeframe_confirms fetch_three ''EURUSD'' ''BUY'' label = Inr True)
      TIMEFRAMES) = 3"
    by (simp add: TIMEFRAMES_def three)
  from reversal_quorum [of fetch_four "''EURUSD''" "''BUY''"]
    reversal_quorum [of fetch_three "''EURUSD''" "''BUY''"] c4 c3
  show ?thesis by simp
qed

section \<open>The fallback scan without a confirmation\<close>

lemma length_true_range: "length (true_range prev_close df) = length df"
  by (induction df arbitrary: prev_close) simp_all

lemma length_atr: "length (atr df) = length df"
  by (simp add: atr_def rolling_mean_def length_true_range)

lemma zone_scan_returns:
  assumes "0 < window"
  shows "\<forall>start\<in>set starts. int start + window \<le> int (length df) \<Longrightarrow>
     \<exists>r. zone_scan df window range_factor breakout_mult atr_v starts (dz, sz) = Inr r"
proof (induction starts arbitrary: dz sz)
  case Nil
  show ?case by simp
next
  case (Cons start starts)
  from Cons.prems have s: "int start + window \<le> int (length df)" by simp
  from Cons.prems have rest: "\<forall>start\<in>set starts. int start + window \<le> int (length df)" by simp
  have "iloc_slice df start (int start + window) \<noteq> []"
    using s assms by (auto simp: iloc_slice_def Let_def min_def)
  then show ?case
    using Cons.IH [OF rest] by (simp add: Let_def)
qed

lemma find_zones_returns:
  assumes "rows df \<noteq> []" and "0 < window"
    and "\<forall>col. atr_14 df = Some col \<longrightarrow> length col = length (rows df)"
  shows "\<exists>dz sz. find_zones df window range_factor breakout_mult max_zones = Inr (dz, sz)"
proof -
  define col where "col = (case atr_14 df of Some col \<Rightarrow> col | None \<Rightarrow> atr (rows df))"
  have "length col = length (rows df)"
    using assms(3) by (cases "atr_14 df") (simp_all add: col_def length_atr)
  with assms(1) have "col \<noteq> []" by auto
  then have a: "iat_last col = Inr (last col)" by (simp add: iat_last_def)
  have "\<forall>start\<in>set [0..<nat (int (length (rows df)) - window)].
      int start + window \<le> int (length (rows df))"
    by auto
  from zone_scan_returns [OF assms(2) this]
  obtain r where "zone_scan (rows df) window range_factor breakout_mult (last col)
     [0..<nat (int (length (rows df)) - window)] ([], []) = Inr r" by blast
  then show ?thesis
    unfolding find_zones_def col_def [symmetric] a
    by (cases r) (simp add: bindE_def)
qed

lemma tf_finders_return:
  assumes "finder \<in> set tf_finders" and "rows df \<noteq> []"
    and "\<forall>col. atr_14 df = Some col \<longrightarrow> length col = length (rows df)"
  shows "\<exists>dz sz. snd finder df = Inr (dz, sz)"
proof -
  from assms(1) consider "snd finder = find_m30_zones" | "snd finder = find_h1_zones"
    | "snd finder = find_h2_zones" | "snd finder = find_h4_zones" | "snd finder = find_d1_zones"
    by (auto simp: tf_finders_def)
  then show ?thesis
  proof cases
    case 1
    then show ?thesis using find_zones_returns [OF assms(2) _ assms(3), of 20]
      by (simp add: find_m30_zones_def)
  next
    case 2
    then show ?thesis using find_zones_returns [OF assms(2) _ assms(3), of 20]
      by (simp add: find_h1_zones_def)
  next
    case 3
    then show ?thesis using find_zones_returns [OF assms(2) _ assms(3), of 25]
      by (simp add: find_h2_zones_def)
  next
    case 4
    then show ?thesis using find_zones_returns [OF assms(2) _ assms(3), of 30]
      by (simp add: find_h4_zones_def)
  next
    case 5
    then show ?thesis using find_zones_returns [OF assms(2) _ assms(3), of 10]
      by (simp add: find_d1_zones_def)
  qed
qed

lemma zone_confirm_scan_unconfirmed:
  "\<forall>z\<in>set zones. in_tolerance zone_tol curr_price z \<longrightarrow>
      \<not> chart_confirms D m15_df direction \<and> detect_reversal_signal fetch symbol direction = Inr False \<Longrightarrow>
   zone_confirm_scan D fetch m15_df symbol direction zone_tol curr_price zones = Inr False"
  by (induction zones) (simp_all add: bindE_def)

lemma fallback_scan_unconfirmed:
  assumes total: "\<forall>finder\<in>set finders. \<forall>df. df_dict (fst finder) = Some df \<longrightarrow> rows df \<noteq> [] \<longrightarrow>
       (\<exists>dz sz. snd finder df = Inr (dz, sz))"
    and none: "\<forall>finder\<in>set finders. \<forall>z\<in>set (required_zones df_dict direction finder).
       in_tolerance zone_tol curr_price z \<longrightarrow>
         \<not> chart_confirms D (df_dict ''M15'') direction \<and>
         detect_reversal_signal fetch symbol direction = Inr False"
  shows "fallback_scan D fetch df_dict symbol direction zone_tol curr_price finders = Inr None"
  using assms
proof (induction finders)
  case Nil
  show ?case by simp
next
  case (Cons finder finders)
  obtain tf fn where f: "finder = (tf, fn)" by (cases finder)
  from Cons.prems have rest: "fallback_scan D fetch df_dict symbol direction zone_tol curr_price finders
      = Inr None"
    by (intro Cons.IH) simp_all
  show ?case
  proof (cases "df_dict tf")
    case None
    with rest show ?thesis by (simp add: f)
  next
    case (Some df)
    show ?thesis
    proof (cases "rows df = []")
      case True
      with Some rest show ?thesis by (simp add: f)
    next
      case False
      with Cons.prems(1) Some obtain dz sz where r: "fn df = Inr (dz, sz)"
        by (auto simp: f)
      with Some False have rz: "required_zones df_dict direction finder
          = (if direction = ''BUY'' then dz else sz)"
        by (simp add: required_zones_def f)
      from Cons.prems(2) have "\<forall>z\<in>set (required_zones df_dict direction finder).
         in_tolerance zone_tol curr_price z \<longrightarrow>
           \<not> chart_confirms D (df_dict ''M15'') direction \<and>
           detect_reversal_signal fetch symbol direction = Inr False"
        by simp
      from zone_confirm_scan_unconfirmed [OF this]
      have "zone_confirm_scan D fetch (df_dict ''M15'') symbol direction zone_tol curr_price
          (if direction = ''BUY'' then dz else sz) = Inr False"
        unfolding rz .
      with Some False r rest show ?thesis
        by (simp add: f bindE_def Let_def)
    qed
  qed
qed

lemma nearest_scan_returns:
  assumes "\<forall>finder\<in>set finders. \<forall>df. df_dict (fst finder) = Some df \<longrightarrow> rows df \<noteq> [] \<longrightarrow>
       (\<exists>dz sz. snd finder df = Inr (dz, sz))"
  shows "\<exists>nearest. nearest_scan df_dict direction curr_price finders best = Inr nearest"
  using assms
proof (induction finders arbitrary: best)
  case Nil
  show ?case by simp
next
  case (Cons finder finders)
  obtain tf fn where f: "finder = (tf, fn)" by (cases finder)
  from Cons.prems have rest: "\<exists>nearest. nearest_scan df_dict direction curr_price finders b = Inr nearest" for b
    by (intro Cons.IH) simp
  show ?case
  proof (cases "df_dict tf")
    case None
    with rest show ?thesis by (simp add: f)
  next
    case (Some df)
    show ?thesis
    proof (cases "rows df = []")
      case True
      with Some rest show ?thesis by (simp add: f)
    next
      case False
      with Cons.prems Some obtain dz sz where r: "fn df = Inr (dz, sz)"
        by (auto simp: f)
      with Some False rest show ?thesis
        by (simp add: f bindE_def)
    qed
  qed
qed

lemma zone_tolerance_returns:
  assumes "\<forall>m15 col. df_dict ''M15'' = Some m15 \<longrightarrow> atr_14 m15 = Some col \<longrightarrow> col \<noteq> []"
  shows "\<exists>zone_tol. zone_tolerance df_dict symbol = Inr zone_tol"
proof (cases "df_dict ''M15''")
  case None
  then show ?thesis by (simp add: zone_tolerance_def Let_def)
next
  case (Some m15)
  show ?thesis
  proof (cases "atr_14 m15")
    case None
    with Some show ?thesis by (simp add: zone_tolerance_def Let_def)
  next
    case (Some col)
    with assms \<open>df_dict ''M15'' = Some m15\<close> have "col \<noteq> []" by blast
    with Some \<open>df_dict ''M15'' = Some m15\<close> show ?thesis
      by (simp add: zone_tolerance_def Let_def iat_last_def bindE_def)
  qed
qed

text \<open>
  Claim C10. When no touched zone of the required side is confirmed on any timeframe
  (neither by a chart pattern of the proposed direction nor by the reversal consensus),
  \<open>find_zones_fallback\<close> returns empty demand and supply lists and no timeframe, whatever
  zones the timeframes hold; the zone gate of the orchestrator then rejects a BUY or SELL
  decision. The frames are pandas frames: an \<^verbatim>\<open>atr_14\<close> column has one cell per row, and
  an M15 frame that carries the column is not empty (its last cell is read).
\<close>

theorem fallback_unconfirmed_returns_empty:
  assumes columns: "\<forall>tf df col. df_dict tf = Some df \<longrightarrow> atr_14 df = Some col \<longrightarrow>
        length col = length (rows df)"
    and m15: "\<forall>m15 col. df_dict ''M15'' = Some m15 \<longrightarrow> atr_14 m15 = Some col \<longrightarrow> rows m15 \<noteq> []"
    and unconfirmed: "\<forall>zone_tol. zone_tolerance df_dict symbol = Inr zone_tol \<longrightarrow>
       (\<forall>finder\<in>set tf_finders. \<forall>z\<in>set (required_zones df_dict direction finder).
          in_tolerance zone_tol curr_price z \<longrightarrow>
            \<not> chart_confirms D (df_dict ''M15'') direction \<and>
            detect_reversal_signal fetch symbol direction = Inr False)"
  shows "find_zones_fallback D fetch df_dict direction curr_price symbol = Inr ([], [], None) \<and>
    (direction = ''BUY'' \<or> direction = ''SELL'' \<longrightarrow>
       (\<forall>result. find_zones_fallback D fetch df_dict direction curr_price symbol = Inr result
          \<longrightarrow> zone_gate_rejects direction result))"
proof -
  have cells: "\<forall>m15 col. df_dict ''M15'' = Some m15 \<longrightarrow> atr_14 m15 = Some col \<longrightarrow> col \<noteq> []"
  proof (intro allI impI)
    fix m15 col assume a: "df_dict ''M15'' = Some m15" "atr_14 m15 = Some col"
    with columns have "length col = length (rows m15)" by blast
    moreover from a m15 have "rows m15 \<noteq> []" by blast
    ultimately show "col \<noteq> []" by auto
  qed
  have "\<exists>zone_tol. zone_tolerance df_dict symbol = Inr zone_tol"
    using cells by (rule zone_tolerance_returns)
  then obtain zone_tol where tol: "zone_tolerance df_dict symbol = Inr zone_tol" by blast
  have total: "\<forall>finder\<in>set tf_finders. \<forall>df. df_dict (fst finder) = Some df \<longrightarrow> rows df \<noteq> [] \<longrightarrow>
       (\<exists>dz sz. snd finder df = Inr (dz, sz))"
  proof (intro ballI allI impI)
    fix finder df
    assume fi: "finder \<in> set tf_finders" and d: "df_dict (fst finder) = Some df"
      and ne: "rows df \<noteq> []"
    from columns d have "\<forall>col. atr_14 df = Some col \<longrightarrow> length col = length (rows df)" by blast
    from tf_finders_return [OF fi ne this] show "\<exists>dz sz. snd finder df = Inr (dz, sz)" .
  qed
  from unconfirmed tol have none: "\<forall>finder\<in>set tf_finders.
       \<forall>z\<in>set (required_zones df_dict direction finder).
         in_tolerance zone_tol curr_price z \<longrightarrow>
           \<not> chart_confirms D (df_dict ''M15'') direction \<and>
           detect_reversal_signal fetch symbol direction = Inr False"
    by blast
  from fallback_scan_unconfirmed [OF total none]
  have scan: "fallback_scan D fetch df_dict symbol direction zone_tol curr_price tf_finders = Inr None" .
  from nearest_scan_returns [OF total, of direction curr_price None]
  obtain nearest where near: "nearest_scan df_dict direction curr_price tf_finders None = Inr nearest"
    by blast
  have run: "find_zones_fallback D fetch df_dict direction curr_price symbol = Inr ([], [], None)"
    by (simp add: find_zones_fallback_def tol scan near bindE_def)
  then show ?thesis by (auto simp: zone_gate_rejects_def)
qed

lemma no_candles_no_reversal: "detect_reversal_signal fetch_none symbol direction = Inr False"
  by (simp add: detect_reversal_signal_def TIMEFRAMES_def timeframe_confirms_def fetch_none_def
      bindE_def)

text \<open>
  The daily frame holds the demand zone (9, 12) and the price 11 lies inside it, but there
  is no M15 frame for a chart pattern and no candles for the reversal consensus: the scan
  returns nothing and the gate rejects the BUY.
\<close>

theorem fallback_unconfirmed_witness:
  "find_d1_zones rising_d1 = Inr ([(9, 12)], []) \<and>
   zone_tolerance [''D1'' \<mapsto> rising_d1] ''EURUSD'' = Inr (Some 0.0003) \<and>
   in_tolerance (Some 0.0003) 11 (9, 12) \<and>
   find_zones_fallback no_detector fetch_none [''D1'' \<mapsto> rising_d1] ''BUY'' 11 ''EURUSD''
     = Inr ([], [], None) \<and>
   zone_gate_rejects ''BUY'' ([], [], None)"
proof -
  have zones: "find_d1_zones rising_d1 = Inr ([(9, 12)], [])"
    by (simp add: find_d1_zones_def rising_d1_def find_zones_def atr_def rolling_mean_def
        iat_last_def bindE_def iloc_slice_def ENABLE_ATR_FILTER_def ENABLE_BREAKOUT_FILTER_def
        merge_zones_def py_slice_from_def)
  have tol: "zone_tolerance [''D1'' \<mapsto> rising_d1] ''EURUSD'' = Inr (Some 0.0003)"
    by (simp add: zone_tolerance_def get_zone_tolerance_def upper_def Let_def)
  have touched: "in_tolerance (Some 0.0003) 11 (9, 12)"
    by (simp add: in_tolerance_def)
  have columns: "\<forall>tf df col. [''D1'' \<mapsto> rising_d1] tf = Some df \<longrightarrow> atr_14 df = Some col \<longrightarrow>
        length col = length (rows df)"
    by (simp add: rising_d1_def)
  have m15: "\<forall>m15 col. [''D1'' \<mapsto> rising_d1] ''M15'' = Some m15 \<longrightarrow> atr_14 m15 = Some col \<longrightarrow>
        rows m15 \<noteq> []"
    by simp
  have unconfirmed: "\<forall>zone_tol. zone_tolerance [''D1'' \<mapsto> rising_d1] ''EURUSD'' = Inr zone_tol \<longrightarrow>
       (\<forall>finder\<in>set tf_finders. \<forall>z\<in>set (required_zones [''D1'' \<mapsto> rising_d1] ''BUY'' finder).
          in_tolerance zone_tol 11 z \<longrightarrow>
            \<not> chart_confirms no_detector ([''D1'' \<mapsto> rising_d1] ''M15'') ''BUY'' \<and>
            detect_reversal_signal fetch_none ''EURUSD'' ''BUY'' = Inr False)"
    by (simp add: chart_confirms_def no_candles_no_reversal)
  from fallback_unconfirmed_returns_empty [OF columns m15 unconfirmed] zones tol touched
  show ?thesis by simp
qed

end
